theory Spec2Isabelle
  imports Complex_Main
begin

section \<open>TARP coverage estimation (src/tarp/drp.py)\<close>

text \<open>
  A shallow embedding of \<^verbatim>\<open>_get_tarp_coverage_single\<close>,
  \<^verbatim>\<open>_get_tarp_coverage_bootstrap\<close> and \<^verbatim>\<open>get_tarp_coverage\<close>.

  Conventions of the model:
  \<^item> numbers are exact reals: rounding of double precision arithmetic is not modelled.
    Where numpy would return \<^verbatim>\<open>nan\<close> (a division \<^verbatim>\<open>0/0\<close>), the
    model has no such value and reports the outcome \<open>NaNOutput\<close> instead of a result;
  \<^item> an \<^verbatim>\<open>np.ndarray\<close> is its shape together with its entries in row-major order;
  \<^item> every \<^verbatim>\<open>raise\<close> of the source, and every exception of a numpy call the
    source makes, is a value \<open>Inl e\<close>; a returned value is \<open>Inr v\<close>;
  \<^item> the process-wide generator \<^verbatim>\<open>np.random\<close> is explicit state (\<open>world\<close>),
    and the generator's algorithm is a parameter (\<open>rng\<close>).
\<close>

subsection \<open>Arrays and errors\<close>

datatype ndarray = NDArray (shape: "nat list") (data: "real list")

definition ndim :: "ndarray \<Rightarrow> nat" where
  "ndim a = length (shape a)"

text \<open>The entries of an array agree with its shape.\<close>

definition wf_ndarray :: "ndarray \<Rightarrow> bool" where
  "wf_ndarray a = (length (data a) = prod_list (shape a))"

datatype error =
    ValueError string
  | IndexError string
  | AssertionError
  | NaNOutput

text \<open>\<^verbatim>\<open>references: Union[str, np.ndarray]\<close>\<close>

datatype references = RefStr string | RefArr ndarray

text \<open>
  The rows of a two-dimensional view: \<open>n\<close> rows of \<open>k\<close> entries each, read from
  row-major data.
\<close>

definition unflat :: "nat \<Rightarrow> nat \<Rightarrow> real list \<Rightarrow> real list list" where
  "unflat n k xs = map (\<lambda>i. take k (drop (i * k) xs)) [0..<n]"

definition unflat3 :: "nat \<Rightarrow> nat \<Rightarrow> nat \<Rightarrow> real list \<Rightarrow> real list list list" where
  "unflat3 s n k xs = map (\<lambda>b. unflat n k (take (n * k) (drop (b * (n * k)) xs))) [0..<s]"

text \<open>
  \<^verbatim>\<open>a[idx, :]\<close>: fancy indexing of the first axis. numpy raises IndexError when the
  array has fewer than two axes, and when an index is out of bounds.
\<close>

definition take_rows :: "nat list \<Rightarrow> ndarray \<Rightarrow> error + ndarray" where
  "take_rows idx a =
     (if ndim a < 2 then Inl (IndexError ''too many indices for array'')
      else let n = hd (shape a); inner = tl (shape a); k = prod_list inner in
        if list_ex (\<lambda>i. n \<le> i) idx then Inl (IndexError ''index out of bounds'')
        else Inr (NDArray (length idx # inner)
                    (concat (map (\<lambda>i. take k (drop (i * k) (data a))) idx))))"

text \<open>\<^verbatim>\<open>a[:, idx, :]\<close>: fancy indexing of the second axis; needs three axes.\<close>

definition take_axis1 :: "nat list \<Rightarrow> ndarray \<Rightarrow> error + ndarray" where
  "take_axis1 idx a =
     (if ndim a < 3 then Inl (IndexError ''too many indices for array'')
      else let s = shape a ! 0; n = shape a ! 1; inner = drop 2 (shape a);
               k = prod_list inner in
        if list_ex (\<lambda>i. n \<le> i) idx then Inl (IndexError ''index out of bounds'')
        else Inr (NDArray (s # length idx # inner)
                    (concat (map (\<lambda>b. concat (map (\<lambda>i. take k (drop ((b * n + i) * k) (data a))) idx))
                               [0..<s]))))"

subsection \<open>The random generator\<close>

text \<open>
  numpy's generator is not part of the repository: its algorithm is a parameter.
  \<open>seed_state s\<close> is the state \<^verbatim>\<open>np.random.seed(s)\<close> installs, \<open>entropy_state k\<close>
  the state installed by the \<open>k\<close>-th call \<^verbatim>\<open>np.random.seed(None)\<close> (numpy reads
  the operating system's entropy), \<open>randint high size\<close> is
  \<^verbatim>\<open>np.random.randint(low=0, high=high, size=size)\<close> and \<open>uniform size\<close> is
  \<^verbatim>\<open>np.random.uniform(low=0, high=1, size=...)\<close> with \<open>size\<close> entries in all.
\<close>

record 'g rng =
  seed_state :: "nat \<Rightarrow> 'g"
  entropy_state :: "nat \<Rightarrow> 'g"
  randint :: "nat \<Rightarrow> nat \<Rightarrow> 'g \<Rightarrow> nat list \<times> 'g"
  uniform :: "nat \<Rightarrow> 'g \<Rightarrow> real list \<times> 'g"

record 'g world =
  gen :: 'g
  entropy_reads :: nat
  stdout :: "string list"

text \<open>\<^verbatim>\<open>np.random.seed(seed)\<close>; numpy accepts integer seeds from 0 to 2**32 - 1.\<close>

definition np_random_seed :: "'g rng \<Rightarrow> int option \<Rightarrow> 'g world \<Rightarrow> error + 'g world" where
  "np_random_seed ops seed w =
     (case seed of
        None \<Rightarrow> Inr (w\<lparr>gen := entropy_state ops (entropy_reads w),
                       entropy_reads := Suc (entropy_reads w)\<rparr>)
      | Some s \<Rightarrow>
          if 0 \<le> s \<and> s < 2 ^ 32 then Inr (w\<lparr>gen := seed_state ops (nat s)\<rparr>)
          else Inl (ValueError ''Seed must be between 0 and 2**32 - 1''))"

text \<open>What numpy promises of the two draws: the number of entries and their range.\<close>

definition rng_contract :: "'g rng \<Rightarrow> bool" where
  "rng_contract ops =
     (\<forall>high size g.
        length (fst (randint ops high size g)) = size \<and>
        (0 < high \<longrightarrow> list_all (\<lambda>i. i < high) (fst (randint ops high size g))) \<and>
        length (fst (uniform ops size g)) = size)"

subsection \<open>The single pass\<close>

text \<open>
  ``Check that shapes are correct'' (lines 66--83). The default of
  \<^verbatim>\<open>num_alpha_bins\<close> is taken between the rank checks and the checks of theta's axes;
  it raises nothing, so \<open>resolve_bins\<close> is kept apart.
\<close>

definition check_shapes :: "ndarray \<Rightarrow> ndarray \<Rightarrow> error + (nat \<times> nat \<times> nat)" where
  "check_shapes samples theta =
     (if ndim samples \<noteq> 3 then Inl (ValueError ''samples must be a 3D array'')
      else if ndim theta \<noteq> 2 then Inl (ValueError ''theta must be a 2D array'')
      else let num_samples = shape samples ! 0;
               num_sims = shape samples ! 1;
               num_dims = shape samples ! 2 in
        if shape theta ! 0 \<noteq> num_sims
        then Inl (ValueError ''theta must have the same number of rows as samples'')
        else if shape theta ! 1 \<noteq> num_dims
        then Inl (ValueError ''theta must have the same number of columns as samples'')
        else Inr (num_samples, num_sims, num_dims))"

definition resolve_bins :: "int option \<Rightarrow> nat \<Rightarrow> int" where
  "resolve_bins num_alpha_bins num_sims =
     (case num_alpha_bins of None \<Rightarrow> int (num_sims div 10) | Some b \<Rightarrow> b)"

text \<open>
  ``Generate reference points'' (lines 89--109). The result is the references as
  \<open>num_sims\<close> rows (the leading axis of length one of the source's
  \<^verbatim>\<open>(1, num_sims, num_dims)\<close> array is left out), the flag
  \<^verbatim>\<open>references_given\<close> and the world after the draw and the warning.
\<close>

definition reference_points ::
  "'g rng \<Rightarrow> references \<Rightarrow> bool \<Rightarrow> nat \<Rightarrow> nat \<Rightarrow> 'g world
     \<Rightarrow> error + (real list list \<times> bool \<times> 'g world)" where
  "reference_points ops refs norm_on num_sims num_dims w =
     (case refs of
        RefStr s \<Rightarrow>
          if s = ''random'' then
            (let (u, g') = uniform ops (1 * num_sims * num_dims) (gen w);
                 w1 = w\<lparr>gen := g'\<rparr>;
                 w2 = (if norm_on then w1
                       else w1\<lparr>stdout := stdout w1 @
                              [''Warning: references are normalized but samples are not'']\<rparr>)
             in Inr (unflat num_sims num_dims u, False, w2))
          else Inl AssertionError
      | RefArr r \<Rightarrow>
          if ndim r \<noteq> 2 then Inl (ValueError ''references must be a 2D array'')
          else if shape r ! 0 \<noteq> num_sims
          then Inl (ValueError ''references must have the same number of rows as samples'')
          else if shape r ! 1 \<noteq> num_dims
          then Inl (ValueError ''references must have the same number of columns as samples'')
          else Inr (unflat num_sims num_dims (data r), True, w))"

text \<open>
  ``Normalize'' (lines 112--118). Theta has been reshaped to \<^verbatim>\<open>(1, num_sims, num_dims)\<close>,
  so \<^verbatim>\<open>axis=1\<close> is the axis of the simulations: \<open>low\<close> and \<open>high\<close> hold one
  entry per dimension. numpy raises ValueError for a minimum over an axis of length zero.
\<close>

definition eps :: real where
  "eps = 1 / 10 ^ 10"

definition amin_axis1 :: "nat \<Rightarrow> real list list \<Rightarrow> real list" where
  "amin_axis1 num_dims rows = map (\<lambda>d. Min (set (map (\<lambda>r. r ! d) rows))) [0..<num_dims]"

definition amax_axis1 :: "nat \<Rightarrow> real list list \<Rightarrow> real list" where
  "amax_axis1 num_dims rows = map (\<lambda>d. Max (set (map (\<lambda>r. r ! d) rows))) [0..<num_dims]"

definition rescale :: "real list \<Rightarrow> real list \<Rightarrow> real list \<Rightarrow> real list" where
  "rescale low high row =
     map (\<lambda>(x, l, h). (x - l) / (h - l + eps)) (zip row (zip low high))"

definition normalize ::
  "bool \<Rightarrow> bool \<Rightarrow> nat \<Rightarrow> real list list list \<Rightarrow> real list list \<Rightarrow> real list list
     \<Rightarrow> error + (real list list list \<times> real list list \<times> real list list)" where
  "normalize norm_on references_given num_dims samples theta refs =
     (if norm_on then
        (if theta = []
         then Inl (ValueError ''zero-size array to reduction operation minimum which has no identity'')
         else let low = amin_axis1 num_dims theta;
                  high = amax_axis1 num_dims theta;
                  samples' = map (map (rescale low high)) samples;
                  theta' = map (rescale low high) theta;
                  refs' = (if references_given then map (rescale low high) refs else refs)
              in Inr (samples', theta', refs'))
      else Inr (samples, theta, refs))"

text \<open>
  ``Compute distances'' (lines 121--130): the sum runs over the last axis. The message of
  the ValueError is written here without the quotation marks around the two names.
\<close>

definition euclidean :: "real list \<Rightarrow> real list \<Rightarrow> real" where
  "euclidean r x = sqrt (sum_list (map (\<lambda>(a, b). (a - b) ^ 2) (zip r x)))"

definition manhattan :: "real list \<Rightarrow> real list \<Rightarrow> real" where
  "manhattan r x = sum_list (map (\<lambda>(a, b). \<bar>a - b\<bar>) (zip r x))"

definition distances ::
  "string \<Rightarrow> real list list \<Rightarrow> real list list list \<Rightarrow> real list list
     \<Rightarrow> error + (real list list \<times> real list)" where
  "distances metric refs samples theta =
     (if metric = ''euclidean''
      then Inr (map (\<lambda>sm. map (\<lambda>(r, x). euclidean r x) (zip refs sm)) samples,
                map (\<lambda>(r, t). euclidean r t) (zip refs theta))
      else if metric = ''manhattan''
      then Inr (map (\<lambda>sm. map (\<lambda>(r, x). manhattan r x) (zip refs sm)) samples,
                map (\<lambda>(r, t). manhattan r t) (zip refs theta))
      else Inl (ValueError ''metric must be either euclidean or manhattan''))"

text \<open>
  ``Compute coverage'' (line 133). The comparison gives booleans, summed over the axis of
  the samples; the sum is divided by the Python integer \<^verbatim>\<open>num_samples\<close>. numpy's
  division by zero raises nothing and gives \<^verbatim>\<open>nan\<close>: here \<open>None\<close>.
\<close>

definition np_true_divide :: "real \<Rightarrow> real \<Rightarrow> real option" where
  "np_true_divide x y = (if y = 0 then None else Some (x / y))"

definition credibility :: "real list list \<Rightarrow> real list \<Rightarrow> nat \<Rightarrow> nat \<Rightarrow> real option list" where
  "credibility samples_distances theta_distances num_samples num_sims =
     map (\<lambda>n. np_true_divide
                (real (sum_list (map (\<lambda>ds. if ds ! n < theta_distances ! n then 1 else 0)
                                   samples_distances)))
                (real num_samples))
       [0..<num_sims]"

text \<open>
  ``Compute expected coverage'' (lines 136--139).
  \<^verbatim>\<open>np.linspace(start, stop, num)\<close> with the end point included.
\<close>

definition linspace :: "real \<Rightarrow> real \<Rightarrow> nat \<Rightarrow> real list" where
  "linspace start stop num =
     (let step = (stop - start) / real (num - 1);
          y = map (\<lambda>i. real i * step + start) [0..<num]
      in if 1 < num then y[num - 1 := stop] else y)"

text \<open>
  \<^verbatim>\<open>np.histogram(f, density=True, bins=bins, range=(0,1))\<close>. An integer
  \<^verbatim>\<open>bins\<close> below one raises ValueError. Entries outside the range (and
  \<^verbatim>\<open>nan\<close>) are dropped; a bin holds its left edge and not its right one, but for
  the last bin, which holds both. The density is
  \<^verbatim>\<open>n / np.diff(bin_edges) / n.sum()\<close>, \<^verbatim>\<open>nan\<close> when nothing was counted.
\<close>

definition in_bin :: "real list \<Rightarrow> nat \<Rightarrow> nat \<Rightarrow> real \<Rightarrow> bool" where
  "in_bin edges nb i x =
     (edges ! i \<le> x \<and> (if Suc i = nb then x \<le> edges ! Suc i else x < edges ! Suc i))"

definition bin_counts :: "real list \<Rightarrow> nat \<Rightarrow> real list \<Rightarrow> nat list" where
  "bin_counts edges nb kept = map (\<lambda>i. length (filter (in_bin edges nb i) kept)) [0..<nb]"

definition density :: "nat list \<Rightarrow> real list \<Rightarrow> real list" where
  "density n edges =
     map (\<lambda>i. real (n ! i) / (edges ! Suc i - edges ! i) / real (sum_list n)) [0..<length n]"

definition histogram :: "real option list \<Rightarrow> int \<Rightarrow> error + (real list \<times> real list)" where
  "histogram a bins =
     (if bins < 1 then Inl (ValueError ''`bins` must be positive, when an integer'')
      else let nb = nat bins;
               edges = linspace 0 1 (nb + 1);
               kept = filter (\<lambda>x. 0 \<le> x \<and> x \<le> 1) (List.map_filter id a);
               n = bin_counts edges nb kept
           in if sum_list n = 0 then Inl NaNOutput
              else Inr (density n edges, edges))"

fun cumsum_from :: "real \<Rightarrow> real list \<Rightarrow> real list" where
  "cumsum_from acc [] = []"
| "cumsum_from acc (x # xs) = (acc + x) # cumsum_from (acc + x) xs"

definition cumsum :: "real list \<Rightarrow> real list" where
  "cumsum xs = cumsum_from 0 xs"

definition expected_coverage :: "real option list \<Rightarrow> int \<Rightarrow> error + (real list \<times> real list)" where
  "expected_coverage f bins =
     (case histogram f bins of
        Inl e \<Rightarrow> Inl e
      | Inr (h, alpha) \<Rightarrow>
          let dx = alpha ! 1 - alpha ! 0;
              ecp = map (\<lambda>c. c * dx) (cumsum h)
          in Inr (0 # ecp, alpha))"

text \<open>\<^verbatim>\<open>_get_tarp_coverage_single\<close> (lines 32--139).\<close>

definition get_tarp_coverage_single ::
  "'g rng \<Rightarrow> ndarray \<Rightarrow> ndarray \<Rightarrow> references \<Rightarrow> string \<Rightarrow> int option \<Rightarrow> bool \<Rightarrow> int option
     \<Rightarrow> 'g world \<Rightarrow> error + ((real list \<times> real list) \<times> 'g world)" where
  "get_tarp_coverage_single ops samples theta refs metric num_alpha_bins norm_on seed w =
     (case np_random_seed ops seed w of
        Inl e \<Rightarrow> Inl e
      | Inr w1 \<Rightarrow>
     (case check_shapes samples theta of
        Inl e \<Rightarrow> Inl e
      | Inr (num_samples, num_sims, num_dims) \<Rightarrow>
     (case reference_points ops refs norm_on num_sims num_dims w1 of
        Inl e \<Rightarrow> Inl e
      | Inr (refs1, references_given, w2) \<Rightarrow>
     (case normalize norm_on references_given num_dims
             (unflat3 num_samples num_sims num_dims (data samples))
             (unflat num_sims num_dims (data theta)) refs1 of
        Inl e \<Rightarrow> Inl e
      | Inr (samples', theta', refs') \<Rightarrow>
     (case distances metric refs' samples' theta' of
        Inl e \<Rightarrow> Inl e
      | Inr (samples_distances, theta_distances) \<Rightarrow>
     (case expected_coverage
             (credibility samples_distances theta_distances num_samples num_sims)
             (resolve_bins num_alpha_bins num_sims) of
        Inl e \<Rightarrow> Inl e
      | Inr r \<Rightarrow> Inr (r, w2)))))))"

subsection \<open>Valid inputs\<close>

text \<open>
  The shape contract of the docstrings: samples \<^verbatim>\<open>(n_samples, n_sims, n_dims)\<close>, theta
  \<^verbatim>\<open>(n_sims, n_dims)\<close>, and references that are \<^verbatim>\<open>"random"\<close> or an array
  \<^verbatim>\<open>(n_sims, n_dims)\<close>.
\<close>

definition shape_contract :: "ndarray \<Rightarrow> ndarray \<Rightarrow> references \<Rightarrow> bool" where
  "shape_contract samples theta refs =
     (ndim samples = 3 \<and>
      shape theta = [shape samples ! 1, shape samples ! 2] \<and>
      (case refs of
         RefStr s \<Rightarrow> s = ''random''
       | RefArr r \<Rightarrow> shape r = [shape samples ! 1, shape samples ! 2]))"

definition valid_seed :: "int option \<Rightarrow> bool" where
  "valid_seed seed = (case seed of None \<Rightarrow> True | Some s \<Rightarrow> 0 \<le> s \<and> s < 2 ^ 32)"

text \<open>
  The inputs on which the single pass is meant to run: the shape contract holds, there is
  at least one sample and one simulation, the metric is one of the two, the number of bins
  (given, or defaulted) is positive, and the seed is one numpy accepts.
\<close>

definition valid_single ::
  "ndarray \<Rightarrow> ndarray \<Rightarrow> references \<Rightarrow> string \<Rightarrow> int option \<Rightarrow> int option \<Rightarrow> bool" where
  "valid_single samples theta refs metric num_alpha_bins seed =
     (shape_contract samples theta refs \<and>
      0 < shape samples ! 0 \<and> 0 < shape samples ! 1 \<and>
      (metric = ''euclidean'' \<or> metric = ''manhattan'') \<and>
      1 \<le> resolve_bins num_alpha_bins (shape samples ! 1) \<and>
      valid_seed seed)"

text \<open>The distance that a metric selects.\<close>

definition metric_distance :: "string \<Rightarrow> real list \<Rightarrow> real list \<Rightarrow> real" where
  "metric_distance metric = (if metric = ''euclidean'' then euclidean else manhattan)"

subsection \<open>The bootstrap\<close>

text \<open>
  Lines 181--189: one draw of indices, used for the samples, for theta and, when the
  references are an array, for the references; a string is passed on as it is.
\<close>

definition resample ::
  "'g rng \<Rightarrow> nat \<Rightarrow> ndarray \<Rightarrow> ndarray \<Rightarrow> references \<Rightarrow> 'g world
     \<Rightarrow> error + (nat list \<times> ndarray \<times> ndarray \<times> references \<times> 'g world)" where
  "resample ops num_sims samples theta refs w =
     (case randint ops num_sims num_sims (gen w) of (idx, g') \<Rightarrow>
     (case take_axis1 idx samples of
        Inl e \<Rightarrow> Inl e
      | Inr boot_samples \<Rightarrow>
     (case take_rows idx theta of
        Inl e \<Rightarrow> Inl e
      | Inr boot_theta \<Rightarrow>
     (case refs of
        RefArr r \<Rightarrow>
          (case take_rows idx r of
             Inl e \<Rightarrow> Inl e
           | Inr boot_references \<Rightarrow>
               Inr (idx, boot_samples, boot_theta, RefArr boot_references, w\<lparr>gen := g'\<rparr>))
      | RefStr s \<Rightarrow> Inr (idx, boot_samples, boot_theta, RefStr s, w\<lparr>gen := g'\<rparr>)))))"

text \<open>The body of the loop (lines 181--199): the draw, then the single pass with the seed.\<close>

definition boot_iteration ::
  "'g rng \<Rightarrow> nat \<Rightarrow> ndarray \<Rightarrow> ndarray \<Rightarrow> references \<Rightarrow> string \<Rightarrow> int \<Rightarrow> bool \<Rightarrow> int option
     \<Rightarrow> 'g world \<Rightarrow> error + ((real list \<times> real list) \<times> 'g world)" where
  "boot_iteration ops num_sims samples theta refs metric num_alpha_bins norm_on seed w =
     (case resample ops num_sims samples theta refs w of
        Inl e \<Rightarrow> Inl e
      | Inr (idx, boot_samples, boot_theta, boot_references, w1) \<Rightarrow>
          get_tarp_coverage_single ops boot_samples boot_theta boot_references metric
            (Some num_alpha_bins) norm_on seed w1)"

text \<open>
  The loop over \<^verbatim>\<open>range(num_bootstrap)\<close>, with the rows of \<^verbatim>\<open>boot_ecp\<close> filled so
  far, the last \<^verbatim>\<open>alpha\<close> and the world. (The rows of \<^verbatim>\<open>np.empty\<close> not yet
  assigned are never returned: an iteration that raises ends the call.)
\<close>

fun boot_loop ::
  "'g rng \<Rightarrow> nat \<Rightarrow> ndarray \<Rightarrow> ndarray \<Rightarrow> references \<Rightarrow> string \<Rightarrow> int \<Rightarrow> bool \<Rightarrow> int option
     \<Rightarrow> nat \<Rightarrow> real list list \<Rightarrow> real list option \<Rightarrow> 'g world
     \<Rightarrow> error + ((real list list \<times> real list option) \<times> 'g world)" where
  "boot_loop ops num_sims samples theta refs metric num_alpha_bins norm_on seed 0 boot_ecp alpha w =
     Inr ((boot_ecp, alpha), w)"
| "boot_loop ops num_sims samples theta refs metric num_alpha_bins norm_on seed (Suc k) boot_ecp alpha w =
     (case boot_iteration ops num_sims samples theta refs metric num_alpha_bins norm_on seed w of
        Inl e \<Rightarrow> Inl e
      | Inr ((ecp, a), w') \<Rightarrow>
          boot_loop ops num_sims samples theta refs metric num_alpha_bins norm_on seed k
            (boot_ecp @ [ecp]) (Some a) w')"

text \<open>
  \<^verbatim>\<open>_get_tarp_coverage_bootstrap\<close> (lines 142--200). \<^verbatim>\<open>samples.shape[1]\<close> raises
  IndexError on an array with fewer than two axes, and \<^verbatim>\<open>np.empty\<close> raises ValueError
  on a negative dimension.
\<close>

definition get_tarp_coverage_bootstrap ::
  "'g rng \<Rightarrow> ndarray \<Rightarrow> ndarray \<Rightarrow> references \<Rightarrow> string \<Rightarrow> int option \<Rightarrow> int \<Rightarrow> bool
     \<Rightarrow> int option \<Rightarrow> 'g world \<Rightarrow> error + ((real list list \<times> real list option) \<times> 'g world)" where
  "get_tarp_coverage_bootstrap ops samples theta refs metric num_alpha_bins num_bootstrap norm_on seed w =
     (if ndim samples < 2 then Inl (IndexError ''tuple index out of range'')
      else let num_sims = shape samples ! 1;
               bins = resolve_bins num_alpha_bins num_sims in
        if num_bootstrap < 0 \<or> bins + 1 < 0
        then Inl (ValueError ''negative dimensions are not allowed'')
        else boot_loop ops num_sims samples theta refs metric bins norm_on seed
               (nat num_bootstrap) [] None w)"

text \<open>
  \<^verbatim>\<open>get_tarp_coverage\<close> (lines 203--244). The two branches return different things: a
  curve with its grid, or the rows of the ensemble with a grid that may be \<^verbatim>\<open>None\<close>.
\<close>

datatype coverage =
    Curve "real list" "real list"
  | Ensemble "real list list" "real list option"

definition get_tarp_coverage ::
  "'g rng \<Rightarrow> ndarray \<Rightarrow> ndarray \<Rightarrow> references \<Rightarrow> string \<Rightarrow> int option \<Rightarrow> int \<Rightarrow> bool \<Rightarrow> bool
     \<Rightarrow> int option \<Rightarrow> 'g world \<Rightarrow> error + (coverage \<times> 'g world)" where
  "get_tarp_coverage ops samples theta refs metric num_alpha_bins num_bootstrap norm_on bootstrap seed w =
     (if bootstrap then
        (case get_tarp_coverage_bootstrap ops samples theta refs metric num_alpha_bins
                num_bootstrap norm_on seed w of
           Inl e \<Rightarrow> Inl e
         | Inr ((ecp, alpha), w') \<Rightarrow> Inr (Ensemble ecp alpha, w'))
      else
        (case get_tarp_coverage_single ops samples theta refs metric num_alpha_bins norm_on seed w of
           Inl e \<Rightarrow> Inl e
         | Inr ((ecp, alpha), w') \<Rightarrow> Inr (Curve ecp alpha, w')))"

subsection \<open>A small generator for the examples\<close>

text \<open>
  A linear congruential generator on sixteen states, to run the definitions on concrete
  inputs. An integer draw is the upper bits of the state, reduced to the range.
\<close>

definition lcg_next :: "nat \<Rightarrow> nat" where
  "lcg_next g = (5 * g + 3) mod 16"

fun lcg_draws :: "nat \<Rightarrow> nat \<Rightarrow> nat list \<times> nat" where
  "lcg_draws 0 g = ([], g)"
| "lcg_draws (Suc n) g = (case lcg_draws n (lcg_next g) of (xs, g') \<Rightarrow> (g # xs, g'))"

definition lcg :: "nat rng" where
  "lcg = \<lparr> seed_state = (\<lambda>s. s mod 16),
           entropy_state = (\<lambda>k. (7 * k + 1) mod 16),
           randint = (\<lambda>high size g.
             case lcg_draws size g of (xs, g') \<Rightarrow> (map (\<lambda>x. (x div 2) mod high) xs, g')),
           uniform = (\<lambda>size g.
             case lcg_draws size g of (xs, g') \<Rightarrow> (map (\<lambda>x. real x / 16) xs, g')) \<rparr>"

definition world0 :: "nat \<Rightarrow> nat world" where
  "world0 g = \<lparr> gen = g, entropy_reads = 0, stdout = [] \<rparr>"

subsection \<open>The normalisation as the specification words it\<close>

text \<open>
  The specification's Normalizer takes the extremes of theta over the dimensions, one
  pair for each dataset, and rescales every entry of dataset \<open>n\<close> with the pair of
  dataset \<open>n\<close>.
\<close>

definition rescale_per_dataset :: "real list \<Rightarrow> real list \<Rightarrow> real list" where
  "rescale_per_dataset t row =
     map (\<lambda>x. (x - Min (set t)) / (Max (set t) - Min (set t) + eps)) row"

definition spec_normalize_theta :: "real list list \<Rightarrow> real list list" where
  "spec_normalize_theta theta = map (\<lambda>t. rescale_per_dataset t t) theta"

section \<open>Properties\<close>

subsection \<open>The grid, the histogram and the stages of the single pass\<close>

lemma linspace_length: "length (linspace start stop num) = num"
  by (simp add: linspace_def Let_def)

lemma linspace_unit:
  assumes "0 < nb"
  shows "linspace 0 1 (Suc nb) = map (\<lambda>i. real i / real nb) [0..<Suc nb]"
proof (rule nth_equalityI)
  show "length (linspace 0 1 (Suc nb)) = length (map (\<lambda>i. real i / real nb) [0..<Suc nb])"
    by (simp add: linspace_length)
next
  fix i assume "i < length (linspace 0 1 (Suc nb))"
  then have i: "i < Suc nb" by (simp add: linspace_length)
  show "linspace 0 1 (Suc nb) ! i = map (\<lambda>i. real i / real nb) [0..<Suc nb] ! i"
  proof (cases "i = nb")
    case True
    with assms show ?thesis
      by (simp add: linspace_def Let_def nth_append del: upt_Suc)
  next
    case False
    with i assms show ?thesis
      by (simp add: linspace_def Let_def nth_append del: upt_Suc)
  qed
qed

lemma linspace_unit_nth:
  "0 < nb \<Longrightarrow> i \<le> nb \<Longrightarrow> linspace 0 1 (Suc nb) ! i = real i / real nb"
  by (simp add: linspace_unit del: upt_Suc)

lemma in_bin_exists:
  assumes nb: "0 < nb" and x: "0 \<le> x" "x \<le> 1"
  shows "\<exists>i<nb. in_bin (linspace 0 1 (Suc nb)) nb i x"
proof (cases "x = 1")
  case True
  from nb have "in_bin (linspace 0 1 (Suc nb)) nb (nb - 1) x"
    by (simp add: in_bin_def linspace_unit_nth True field_simps)
  with nb show ?thesis by (intro exI [of _ "nb - 1"]) simp
next
  case False
  define i where "i = nat \<lfloor>x * real nb\<rfloor>"
  from x nb have fl: "0 \<le> \<lfloor>x * real nb\<rfloor>" by simp
  have lo: "real i \<le> x * real nb"
    unfolding i_def using fl by simp
  have hi: "x * real nb < real i + 1"
    unfolding i_def using fl by simp
  from False x have "x < 1" by simp
  with nb have "x * real nb < real nb" by simp
  with lo have "real i < real nb" by linarith
  then have ilt: "i < nb" by simp
  from nb lo have e1: "real i / real nb \<le> x" by (simp add: field_simps)
  from nb hi have e2: "x < real (Suc i) / real nb" by (simp add: field_simps)
  from x have e3: "x \<le> real (Suc i) / real nb" using e2 by simp
  have "in_bin (linspace 0 1 (Suc nb)) nb i x"
    using ilt nb e1 e2 e3 x by (simp add: in_bin_def linspace_unit_nth del: of_nat_Suc)
  with ilt show ?thesis by blast
qed

lemma cumsum_from_length: "length (cumsum_from acc xs) = length xs"
  by (induction xs arbitrary: acc) simp_all

lemma cumsum_from_sorted:
  "list_all (\<lambda>x. 0 \<le> x) xs \<Longrightarrow> sorted (acc # cumsum_from acc xs)"
proof (induction xs arbitrary: acc)
  case Nil
  then show ?case by simp
next
  case (Cons x xs)
  from Cons.prems have x: "0 \<le> x" and xs: "list_all (\<lambda>x. 0 \<le> x) xs" by simp_all
  from Cons.IH [OF xs, of "acc + x"] have s: "sorted ((acc + x) # cumsum_from (acc + x) xs)" .
  then have "\<forall>y\<in>set (cumsum_from (acc + x) xs). acc + x \<le> y" by simp
  with x have "\<forall>y\<in>set (cumsum_from (acc + x) xs). acc \<le> y" by fastforce
  with s x show ?case by simp
qed


lemma bin_counts_length: "length (bin_counts edges nb kept) = nb"
  by (simp add: bin_counts_def)

lemma density_nonneg:
  assumes "0 < length n"
  shows "list_all (\<lambda>x. 0 \<le> x) (density n (linspace 0 1 (Suc (length n))))"
  using assms
  by (simp add: density_def list_all_iff linspace_unit_nth diff_divide_distrib [symmetric]
      del: of_nat_Suc)

lemma density_length: "length (density n edges) = length n"
  by (simp add: density_def)

lemma histogram_Inr:
  assumes "histogram a bins = Inr (h, alpha)"
  shows "1 \<le> bins \<and> alpha = linspace 0 1 (Suc (nat bins)) \<and> length h = nat bins \<and>
         list_all (\<lambda>x. 0 \<le> x) h"
proof -
  from assms have b: "1 \<le> bins"
    by (simp add: histogram_def split: if_splits)
  then have nb: "0 < nat bins" by simp
  define n where "n = bin_counts (linspace 0 1 (Suc (nat bins))) (nat bins)
     (filter (\<lambda>x. 0 \<le> x \<and> x \<le> 1) (List.map_filter id a))"
  have ln: "length n = nat bins" by (simp add: n_def bin_counts_length)
  from assms b have h: "h = density n (linspace 0 1 (Suc (nat bins)))"
    and al: "alpha = linspace 0 1 (Suc (nat bins))"
    by (auto simp: histogram_def Let_def n_def split: if_splits)
  from density_nonneg [of n] nb ln have "list_all (\<lambda>x. 0 \<le> x) h"
    by (simp add: h)
  with b al h ln show ?thesis by (simp add: density_length)
qed

lemma histogram_total:
  assumes b: "1 \<le> bins" and x: "Some x \<in> set a" "0 \<le> x" "x \<le> 1"
  shows "\<exists>h. histogram a bins = Inr (h, linspace 0 1 (Suc (nat bins)))"
proof -
  define nb where "nb = nat bins"
  define edges where "edges = linspace 0 1 (Suc nb)"
  define kept where "kept = filter (\<lambda>x. 0 \<le> x \<and> x \<le> 1) (List.map_filter id a)"
  define n where "n = bin_counts edges nb kept"
  from b have nb: "0 < nb" by (simp add: nb_def)
  from x have xk: "x \<in> set kept"
    by (force simp: kept_def List.map_filter_def)
  from in_bin_exists [OF nb x(2,3)] obtain i where i: "i < nb" "in_bin edges nb i x"
    unfolding edges_def by blast
  from xk i(2) have "x \<in> set (filter (in_bin edges nb i) kept)" by simp
  then have "0 < length (filter (in_bin edges nb i) kept)"
    by (metis length_pos_if_in_set)
  with i(1) have pos: "0 < n ! i" by (simp add: n_def bin_counts_def)
  from i(1) have "n ! i \<in> set n" by (simp add: n_def bin_counts_def)
  from member_le_sum_list [OF this] pos have "sum_list n \<noteq> 0" by linarith
  with b show ?thesis
    by (simp add: histogram_def Let_def nb_def [symmetric] edges_def [symmetric]
        kept_def [symmetric] n_def [symmetric])
qed

lemma expected_coverage_Inr:
  assumes "expected_coverage f bins = Inr (ecp, alpha)"
  shows "1 \<le> bins \<and> alpha = linspace 0 1 (Suc (nat bins)) \<and> length ecp = Suc (nat bins) \<and>
         ecp ! 0 = 0 \<and> sorted ecp"
proof -
  from assms obtain h where h: "histogram f bins = Inr (h, alpha)"
    and ecp: "ecp = 0 # map (\<lambda>c. c * (alpha ! 1 - alpha ! 0)) (cumsum h)"
    by (auto simp: expected_coverage_def Let_def split: sum.splits)
  from histogram_Inr [OF h] have b: "1 \<le> bins" and al: "alpha = linspace 0 1 (Suc (nat bins))"
    and lh: "length h = nat bins" and nn: "list_all (\<lambda>x. 0 \<le> x) h" by simp_all
  from b have nb: "0 < nat bins" by simp
  have dx: "0 \<le> alpha ! 1 - alpha ! 0"
    using nb by (simp add: al linspace_unit_nth)
  from cumsum_from_sorted [OF nn, of 0] have "sorted (0 # cumsum h)"
    by (simp add: cumsum_def)
  then have "sorted (map (\<lambda>c. c * (alpha ! 1 - alpha ! 0)) (0 # cumsum h))"
    using dx by (intro sorted_map [THEN iffD2]) (auto simp: sorted_wrt_iff_nth_less mult_right_mono)
  then have "sorted ecp" by (simp add: ecp)
  with b al lh ecp show ?thesis
    by (simp add: cumsum_def cumsum_from_length)
qed


lemma unflat_length: "length (unflat n k xs) = n"
  by (simp add: unflat_def)

lemma unflat3_length: "length (unflat3 s n k xs) = s"
  by (simp add: unflat3_def)

lemma check_shapes_Inr:
  assumes "check_shapes samples theta = Inr (S, N, D)"
  shows "ndim samples = 3 \<and> ndim theta = 2 \<and> S = shape samples ! 0 \<and> N = shape samples ! 1 \<and>
         D = shape samples ! 2 \<and> shape theta ! 0 = N \<and> shape theta ! 1 = D"
  using assms by (auto simp: check_shapes_def Let_def split: if_splits)

lemma check_shapes_valid:
  assumes "valid_single samples theta refs metric num_alpha_bins seed"
  shows "check_shapes samples theta = Inr (shape samples ! 0, shape samples ! 1, shape samples ! 2)"
  using assms by (simp add: valid_single_def shape_contract_def check_shapes_def ndim_def)

lemma reference_points_Inr:
  assumes "reference_points ops refs norm_on N D w = Inr (refs1, given, w2)"
  shows "length refs1 = N \<and> given = (refs \<noteq> RefStr ''random'')"
  using assms
  by (auto simp: reference_points_def Let_def unflat_length split: references.splits if_splits prod.splits)

lemma reference_points_valid:
  assumes "valid_single samples theta refs metric num_alpha_bins seed"
  shows "\<exists>refs1 given w2.
           reference_points ops refs norm_on (shape samples ! 1) (shape samples ! 2) w = Inr (refs1, given, w2)"
  using assms
  by (auto simp: valid_single_def shape_contract_def reference_points_def Let_def ndim_def
      split: references.splits prod.splits)

lemma normalize_Inr:
  assumes "normalize norm_on given D samples theta refs = Inr (samples', theta', refs')"
  shows "length samples' = length samples \<and> length theta' = length theta \<and> length refs' = length refs"
  using assms by (auto simp: normalize_def Let_def split: if_splits)

lemma normalize_total:
  assumes "theta \<noteq> []"
  shows "\<exists>r. normalize norm_on given D samples theta refs = Inr r"
  using assms by (simp add: normalize_def Let_def)

lemma distances_Inr:
  assumes "distances metric refs samples theta = Inr (sd, td)"
  shows "length sd = length samples \<and> (metric = ''euclidean'' \<or> metric = ''manhattan'')"
  using assms by (auto simp: distances_def split: if_splits)

lemma distances_total:
  assumes "metric = ''euclidean'' \<or> metric = ''manhattan''"
  shows "\<exists>r. distances metric refs samples theta = Inr r"
  using assms by (auto simp: distances_def)

lemma sum_list_indicator:
  "sum_list (map (\<lambda>x. if P x then 1 else 0) xs) = length (filter P xs)"
  by (induction xs) simp_all

lemma credibility_length: "length (credibility sd td S N) = N"
  by (simp add: credibility_def)

lemma credibility_nth:
  assumes "0 < S" and "n < N"
  shows "credibility sd td S N ! n = Some (real (length (filter (\<lambda>ds. ds ! n < td ! n) sd)) / real S)"
  using assms by (simp add: credibility_def np_true_divide_def sum_list_indicator)

lemma credibility_range:
  assumes S: "0 < S" and n: "n < N" and l: "length sd = S"
  shows "\<exists>x. credibility sd td S N ! n = Some x \<and> 0 \<le> x \<and> x \<le> 1"
proof -
  have "length (filter (\<lambda>ds. ds ! n < td ! n) sd) \<le> S"
    using l length_filter_le [of "\<lambda>ds. ds ! n < td ! n" sd] by simp
  with S show ?thesis
    by (simp add: credibility_nth [OF S n])
qed

text \<open>
  A result of the single pass is a result of the last stage, for the resolved number of
  bins; and on every valid input every stage succeeds.
\<close>

lemma single_Inr:
  assumes "get_tarp_coverage_single ops samples theta refs metric num_alpha_bins norm_on seed w
             = Inr ((ecp, alpha), w')"
  shows "\<exists>f. expected_coverage f (resolve_bins num_alpha_bins (shape samples ! 1)) = Inr (ecp, alpha)"
  using assms
  by (auto simp: get_tarp_coverage_single_def split: sum.splits prod.splits
      dest!: check_shapes_Inr)

lemma single_valid:
  assumes v: "valid_single samples theta refs metric num_alpha_bins seed"
  shows "\<exists>ecp alpha w'.
           get_tarp_coverage_single ops samples theta refs metric num_alpha_bins norm_on seed w
             = Inr ((ecp, alpha), w')"
proof -
  define S where "S = shape samples ! 0"
  define N where "N = shape samples ! 1"
  define D where "D = shape samples ! 2"
  from v have S: "0 < S" and N: "0 < N" and b: "1 \<le> resolve_bins num_alpha_bins N"
    and m: "metric = ''euclidean'' \<or> metric = ''manhattan''"
    by (simp_all add: valid_single_def S_def N_def)
  from v obtain w1 where w1: "np_random_seed ops seed w = Inr w1"
    by (auto simp: valid_single_def valid_seed_def np_random_seed_def split: option.splits)
  have cs: "check_shapes samples theta = Inr (S, N, D)"
    using check_shapes_valid [OF v] by (simp add: S_def N_def D_def)
  from reference_points_valid [OF v, of ops norm_on w1]
  obtain refs1 given w2 where rp: "reference_points ops refs norm_on N D w1 = Inr (refs1, given, w2)"
    by (auto simp: N_def D_def)
  from N have "unflat N D (data theta) \<noteq> []"
    using unflat_length [of N D "data theta"] by fastforce
  from normalize_total [OF this, of norm_on given D "unflat3 S N D (data samples)" refs1]
  obtain samples' theta' refs' where nz: "normalize norm_on given D (unflat3 S N D (data samples))
      (unflat N D (data theta)) refs1 = Inr (samples', theta', refs')"
    by (metis prod_cases3)
  from normalize_Inr [OF nz] have ls: "length samples' = S" by (simp add: unflat3_length)
  from distances_total [OF m, of refs' samples' theta']
  obtain sd td where ds: "distances metric refs' samples' theta' = Inr (sd, td)"
    by (metis surj_pair)
  from distances_Inr [OF ds] ls have lsd: "length sd = S" by simp
  from credibility_range [OF S N lsd, of td]
  obtain x where x: "credibility sd td S N ! 0 = Some x" "0 \<le> x" "x \<le> 1" by blast
  from N have "credibility sd td S N ! 0 \<in> set (credibility sd td S N)"
    by (simp add: credibility_length)
  with x have "Some x \<in> set (credibility sd td S N)" by simp
  from histogram_total [OF b this x(2,3)]
  obtain h where h: "histogram (credibility sd td S N) (resolve_bins num_alpha_bins N)
      = Inr (h, linspace 0 1 (Suc (nat (resolve_bins num_alpha_bins N))))" by blast
  then obtain r where "expected_coverage (credibility sd td S N) (resolve_bins num_alpha_bins N) = Inr r"
    by (simp add: expected_coverage_def Let_def)
  with w1 cs rp nz ds show ?thesis
    by (cases r) (simp add: get_tarp_coverage_single_def)
qed

lemma linspace_unit_strict: "0 < nb \<Longrightarrow> sorted_wrt (<) (linspace 0 1 (Suc nb))"
  by (simp add: linspace_unit sorted_wrt_iff_nth_less divide_strict_right_mono del: upt_Suc)

lemma example_valid:
  "valid_single (NDArray [1, 2, 1] [0, 1]) (NDArray [2, 1] [1 / 2, 1 / 2])
     (RefArr (NDArray [2, 1] [0, 0])) ''manhattan'' (Some 2) (Some 0)"
  by (simp add: valid_single_def shape_contract_def valid_seed_def ndim_def resolve_bins_def)

subsection \<open>Distances and credibility values\<close>

lemma sum_list_zip_nth:
  assumes "length r = length x"
  shows "sum_list (map (\<lambda>(a, b). f a b) (zip r x)) = (\<Sum>d<length r. f (r ! d) (x ! d))"
proof -
  have "sum_list (map (\<lambda>(a, b). f a b) (zip r x))
          = (\<Sum>d = 0..<length (zip r x). map (\<lambda>(a, b). f a b) (zip r x) ! d)"
    by (simp add: sum_list_sum_nth)
  also have "\<dots> = (\<Sum>d = 0..<length r. f (r ! d) (x ! d))"
    using assms by (intro sum.cong) simp_all
  finally show ?thesis by (simp add: lessThan_atLeast0)
qed

lemma euclidean_sum:
  "length r = length x \<Longrightarrow> euclidean r x = sqrt (\<Sum>d<length r. (r ! d - x ! d) ^ 2)"
  by (simp add: euclidean_def sum_list_zip_nth)

lemma manhattan_sum:
  "length r = length x \<Longrightarrow> manhattan r x = (\<Sum>d<length r. \<bar>r ! d - x ! d\<bar>)"
  by (simp add: manhattan_def sum_list_zip_nth)

lemma distances_metric:
  assumes "distances metric refs samples theta = Inr (sd, td)"
  shows "sd = map (\<lambda>sm. map (\<lambda>(r, x). metric_distance metric r x) (zip refs sm)) samples \<and>
         td = map (\<lambda>(r, t). metric_distance metric r t) (zip refs theta)"
  using assms by (auto simp: distances_def metric_distance_def split: if_splits)

lemma credibility_fraction:
  assumes d: "distances metric refs samples theta = Inr (sd, td)"
    and S: "0 < length samples" and n: "n < N"
    and lr: "length refs = N" and lt: "length theta = N"
    and ls: "list_all (\<lambda>sm. length sm = N) samples"
  shows "\<exists>f. credibility sd td (length samples) N ! n = Some f \<and>
           f = real (card {s. s < length samples \<and>
                     metric_distance metric (refs ! n) (samples ! s ! n)
                       < metric_distance metric (refs ! n) (theta ! n)})
               / real (length samples) \<and>
           0 \<le> f \<and> f \<le> 1"
proof -
  from distances_metric [OF d]
  have sd: "sd = map (\<lambda>sm. map (\<lambda>(r, x). metric_distance metric r x) (zip refs sm)) samples"
    and td: "td = map (\<lambda>(r, t). metric_distance metric r t) (zip refs theta)" by simp_all
  have lsd: "length sd = length samples" by (simp add: sd)
  have tdn: "td ! n = metric_distance metric (refs ! n) (theta ! n)"
    using n lr lt by (simp add: td)
  have sdn: "sd ! s ! n = metric_distance metric (refs ! n) (samples ! s ! n)"
    if "s < length samples" for s
  proof -
    from that ls have "length (samples ! s) = N" by (simp add: list_all_length)
    with that n lr show ?thesis by (simp add: sd)
  qed
  have "length (filter (\<lambda>ds. ds ! n < td ! n) sd)
          = card {s. s < length sd \<and> sd ! s ! n < td ! n}"
    by (simp add: length_filter_conv_card)
  also have "{s. s < length sd \<and> sd ! s ! n < td ! n}
          = {s. s < length samples \<and>
                metric_distance metric (refs ! n) (samples ! s ! n)
                  < metric_distance metric (refs ! n) (theta ! n)}"
    using sdn tdn lsd by auto
  finally have cnt: "length (filter (\<lambda>ds. ds ! n < td ! n) sd)
          = card {s. s < length samples \<and>
                metric_distance metric (refs ! n) (samples ! s ! n)
                  < metric_distance metric (refs ! n) (theta ! n)}" .
  from credibility_range [OF S n lsd, of td] credibility_nth [OF S n, of sd td]
  show ?thesis by (auto simp: cnt)
qed


lemma unflat3_rows: "list_all (\<lambda>sm. length sm = N) (unflat3 S N D xs)"
  by (simp add: unflat3_def list_all_iff unflat_length)

lemma normalize_rows:
  assumes "normalize norm_on given D samples theta refs = Inr (samples', theta', refs')"
  shows "map length samples' = map length samples"
  using assms by (auto simp: normalize_def Let_def split: if_splits)

subsection \<open>The metric check\<close>

lemma single_Inr_metric:
  assumes "get_tarp_coverage_single ops samples theta refs metric num_alpha_bins norm_on seed w = Inr r"
  shows "metric = ''euclidean'' \<or> metric = ''manhattan''"
  using assms
  by (auto simp: get_tarp_coverage_single_def split: sum.splits prod.splits dest: distances_Inr)

lemma reference_points_contract:
  assumes "shape_contract samples theta refs"
  shows "\<exists>refs1 given w2.
           reference_points ops refs norm_on (shape samples ! 1) (shape samples ! 2) w = Inr (refs1, given, w2)"
  using assms
  by (auto simp: shape_contract_def reference_points_def Let_def ndim_def
      split: references.splits prod.splits)

lemma normalize_total_if:
  assumes "norm_on \<longrightarrow> theta \<noteq> []"
  shows "\<exists>samples' theta' refs'.
           normalize norm_on given D samples theta refs = Inr (samples', theta', refs')"
  using assms by (cases norm_on) (simp_all add: normalize_def Let_def)

lemma single_metric_error:
  assumes m: "metric \<noteq> ''euclidean''" "metric \<noteq> ''manhattan''"
    and sc: "shape_contract samples theta refs" and vs: "valid_seed seed"
    and N: "norm_on \<longrightarrow> 0 < shape samples ! 1"
  shows "get_tarp_coverage_single ops samples theta refs metric num_alpha_bins norm_on seed w
           = Inl (ValueError ''metric must be either euclidean or manhattan'')"
proof -
  define S where "S = shape samples ! 0"
  define N where "N = shape samples ! 1"
  define D where "D = shape samples ! 2"
  from vs obtain w1 where w1: "np_random_seed ops seed w = Inr w1"
    by (auto simp: valid_seed_def np_random_seed_def split: option.splits)
  from sc have cs: "check_shapes samples theta = Inr (S, N, D)"
    by (simp add: shape_contract_def check_shapes_def ndim_def S_def N_def D_def)
  from reference_points_contract [OF sc, of ops norm_on w1]
  obtain refs1 given w2 where rp: "reference_points ops refs norm_on N D w1 = Inr (refs1, given, w2)"
    by (auto simp: N_def D_def)
  have "norm_on \<longrightarrow> unflat N D (data theta) \<noteq> []"
    using assms(5) unflat_length [of N D "data theta"] by (auto simp: N_def)
  from normalize_total_if [OF this, of given D "unflat3 S N D (data samples)" refs1]
  obtain samples' theta' refs' where nz: "normalize norm_on given D (unflat3 S N D (data samples))
      (unflat N D (data theta)) refs1 = Inr (samples', theta', refs')"
    by blast
  from m have "distances metric refs' samples' theta'
      = Inl (ValueError ''metric must be either euclidean or manhattan'')"
    by (simp add: distances_def)
  with w1 cs rp nz show ?thesis
    by (simp add: get_tarp_coverage_single_def)
qed

lemma boot_loop_Inr_single:
  assumes "boot_loop ops N samples theta refs metric bins norm_on seed (Suc k) rows alpha w = Inr r"
  shows "metric = ''euclidean'' \<or> metric = ''manhattan''"
  using assms
  by (auto simp: boot_iteration_def split: sum.splits prod.splits dest: single_Inr_metric)

subsection \<open>Normalisation\<close>

lemma example_reference_points:
  "reference_points lcg (RefArr (NDArray [2, 1] [0, 0])) False 2 1 (world0 0)
     = Inr ([[0], [0]], True, world0 0)"
  by (simp add: reference_points_def ndim_def unflat_def upt_conv_Cons)

lemma example_normalize:
  "normalize False True 1 (unflat3 1 2 1 (data (NDArray [1, 2, 1] [0, 1])))
     (unflat 2 1 (data (NDArray [2, 1] [1 / 2, 1 / 2]))) [[0], [0]]
     = Inr ([[[0], [1]]], [[1 / 2], [1 / 2]], [[0], [0]])"
  by (simp add: normalize_def unflat_def unflat3_def upt_conv_Cons)

lemma example_distances:
  "distances ''manhattan'' [[0], [0]] [[[0], [1]]] [[1 / 2], [1 / 2]] = Inr ([[0, 1]], [1 / 2, 1 / 2])"
  by (simp add: distances_def manhattan_def)

lemma eps_pos: "0 < eps"
  by (simp add: eps_def)

lemma rescale_nth:
  assumes "d < length row" and "d < length low" and "d < length high"
  shows "rescale low high row ! d = (row ! d - low ! d) / (high ! d - low ! d + eps)"
  using assms by (simp add: rescale_def)

lemma amin_axis1_nth:
  "d < D \<Longrightarrow> amin_axis1 D rows ! d = Min ((\<lambda>t. t ! d) ` set rows)"
  by (simp add: amin_axis1_def)

lemma amax_axis1_nth:
  "d < D \<Longrightarrow> amax_axis1 D rows ! d = Max ((\<lambda>t. t ! d) ` set rows)"
  by (simp add: amax_axis1_def)

lemma lcg_draws_pos:
  "0 < n \<Longrightarrow> lcg_draws n g = (case lcg_draws (n - 1) (lcg_next g) of (xs, g') \<Rightarrow> (g # xs, g'))"
  by (cases n) simp_all

lemma example_reference_points_random:
  "reference_points lcg (RefStr ''random'') True 2 2 (world0 0)
     = Inr ([[0, 3 / 16], [1 / 8, 13 / 16]], False, world0 4)"
  by (simp add: reference_points_def lcg_def world0_def unflat_def upt_conv_Cons lcg_draws_pos lcg_next_def)

lemma example_reference_points_given:
  "reference_points lcg (RefArr (NDArray [2, 2] [0, 0, 0, 0])) True 2 2 (world0 0)
     = Inr ([[0, 0], [0, 0]], True, world0 0)"
  by (simp add: reference_points_def ndim_def unflat_def upt_conv_Cons)

lemma example_normalize_given:
  "normalize True True 2 [[[5, 15], [5, 15]]] [[0, 10], [1, 20]] [[0, 0], [0, 0]]
     = Inr ([[[5 / (1 + eps), 5 / (10 + eps)], [5 / (1 + eps), 5 / (10 + eps)]]],
            [[0, 0], [1 / (1 + eps), 10 / (10 + eps)]],
            [[0, - (10 / (10 + eps))], [0, - (10 / (10 + eps))]])"
  by (simp add: normalize_def Let_def amin_axis1_def amax_axis1_def rescale_def upt_conv_Cons)

subsection \<open>Indexing an axis with a list of indices\<close>

lemma concat_chunk:
  "list_all (\<lambda>x. length x = k) xss \<Longrightarrow> j < length xss \<Longrightarrow>
     take k (drop (j * k) (concat xss)) = xss ! j"
proof (induction xss arbitrary: j)
  case Nil
  then show ?case by simp
next
  case (Cons x xss)
  show ?case
  proof (cases j)
    case 0
    with Cons.prems show ?thesis by simp
  next
    case (Suc j')
    with Cons.prems have "take k (drop (j' * k) (concat xss)) = xss ! j'"
      by (intro Cons.IH) simp_all
    with Cons.prems Suc show ?thesis by simp
  qed
qed

lemma concat_chunks_length:
  "list_all (\<lambda>x. length x = k) xss \<Longrightarrow> length (concat xss) = length xss * k"
  by (induction xss) simp_all

lemma chunk_length:
  assumes "i < n" and "length xs = n * k"
  shows "length (take k (drop (i * k) xs)) = k"
proof -
  from assms(1) have "Suc i \<le> n" by simp
  then have "Suc i * k \<le> n * k" by (rule mult_le_mono1)
  with assms(2) show ?thesis by simp
qed

lemma take_rows_Inr:
  assumes sh: "shape a = [M, D]" and wf: "wf_ndarray a" and idx: "list_all (\<lambda>i. i < M) idx"
  shows "\<exists>a'. take_rows idx a = Inr a' \<and> shape a' = [length idx, D] \<and> wf_ndarray a' \<and>
           (\<forall>j<length idx. unflat (length idx) D (data a') ! j = unflat M D (data a) ! (idx ! j))"
proof -
  define rows where "rows = map (\<lambda>i. take D (drop (i * D) (data a))) idx"
  from wf sh have ld: "length (data a) = M * D" by (simp add: wf_ndarray_def)
  have all: "list_all (\<lambda>x. length x = D) rows"
    using idx chunk_length [OF _ ld] by (auto simp: rows_def list_all_iff)
  from idx have nex: "\<not> list_ex (\<lambda>i. M \<le> i) idx"
    by (auto simp: list_all_iff list_ex_iff)
  have tr: "take_rows idx a = Inr (NDArray [length idx, D] (concat rows))"
    using nex by (simp add: take_rows_def ndim_def sh Let_def rows_def)
  have l: "length (concat rows) = length idx * D"
    using concat_chunks_length [OF all] by (simp add: rows_def)
  have "unflat (length idx) D (concat rows) ! j = unflat M D (data a) ! (idx ! j)"
    if j: "j < length idx" for j
  proof -
    from idx j have "idx ! j < M" by (simp add: list_all_length)
    with j concat_chunk [OF all, of j] show ?thesis
      by (simp add: unflat_def rows_def)
  qed
  with tr l show ?thesis by (simp add: wf_ndarray_def)
qed

lemma take_chunk_take:
  assumes "i < n"
  shows "take k (drop (i * k) (take (n * k) xs)) = take k (drop (i * k) xs)"
proof -
  from assms have "Suc i \<le> n" by simp
  then have "Suc i * k \<le> n * k" by (rule mult_le_mono1)
  then have "k \<le> n * k - i * k" by simp
  then show ?thesis by (simp add: drop_take min_def)
qed

lemma take_axis1_Inr:
  assumes sh: "shape a = [S, N, D]" and wf: "wf_ndarray a" and idx: "list_all (\<lambda>i. i < N) idx"
  shows "\<exists>a'. take_axis1 idx a = Inr a' \<and> shape a' = [S, length idx, D] \<and> wf_ndarray a' \<and>
           (\<forall>s<S. \<forall>j<length idx.
              unflat3 S (length idx) D (data a') ! s ! j = unflat3 S N D (data a) ! s ! (idx ! j))"
proof -
  define L where "L = length idx"
  define rows where "rows b = map (\<lambda>i. take D (drop ((b * N + i) * D) (data a))) idx" for b
  define blocks where "blocks = map (\<lambda>b. concat (rows b)) [0..<S]"
  from wf sh have ld: "length (data a) = (S * N) * D" by (simp add: wf_ndarray_def)
  have inb: "b * N + i < S * N" if "b < S" "i < N" for b i
  proof -
    from that(2) have "b * N + i < Suc b * N" by simp
    also from that(1) have "Suc b * N \<le> S * N" by (intro mult_le_mono1) simp
    finally show ?thesis .
  qed
  have rows_all: "list_all (\<lambda>x. length x = D) (rows b)" if "b < S" for b
    using idx chunk_length [OF inb [OF that] ld] by (auto simp: rows_def list_all_iff)
  have rows_len: "length (rows b) = L" for b by (simp add: rows_def L_def)
  have blocks_all: "list_all (\<lambda>x. length x = L * D) blocks"
    using concat_chunks_length [OF rows_all] by (auto simp: blocks_def list_all_iff rows_len)
  from idx have nex: "\<not> list_ex (\<lambda>i. N \<le> i) idx"
    by (auto simp: list_all_iff list_ex_iff)
  have ta: "take_axis1 idx a = Inr (NDArray [S, L, D] (concat blocks))"
    using nex by (simp add: take_axis1_def ndim_def sh Let_def blocks_def rows_def L_def)
  have l: "length (concat blocks) = S * (L * D)"
    using concat_chunks_length [OF blocks_all] by (simp add: blocks_def)
  have "unflat3 S L D (concat blocks) ! s ! j = unflat3 S N D (data a) ! s ! (idx ! j)"
    if s: "s < S" and j: "j < L" for s j
  proof -
    from idx j have i: "idx ! j < N" by (simp add: list_all_length L_def)
    from s have "take (L * D) (drop (s * (L * D)) (concat blocks)) = concat (rows s)"
      using concat_chunk [OF blocks_all, of s] by (simp add: blocks_def)
    with s j have "unflat3 S L D (concat blocks) ! s ! j = take D (drop (j * D) (concat (rows s)))"
      by (simp add: unflat3_def unflat_def)
    also from j have "\<dots> = rows s ! j"
      using concat_chunk [OF rows_all [OF s], of j] by (simp add: rows_len)
    also from j have "\<dots> = take D (drop ((s * N + idx ! j) * D) (data a))"
      by (simp add: rows_def L_def)
    also have "\<dots> = take D (drop (idx ! j * D) (drop (s * (N * D)) (data a)))"
      by (simp add: algebra_simps)
    also have "\<dots> = take D (drop (idx ! j * D) (take (N * D) (drop (s * (N * D)) (data a))))"
      by (simp only: take_chunk_take [OF i])
    also from s i have "\<dots> = unflat3 S N D (data a) ! s ! (idx ! j)"
      by (simp add: unflat3_def unflat_def)
    finally show ?thesis .
  qed
  with ta l show ?thesis by (simp add: wf_ndarray_def L_def)
qed

lemma rng_contract_randint:
  assumes "rng_contract ops"
  shows "length (fst (randint ops n n g)) = n \<and> list_all (\<lambda>i. i < n) (fst (randint ops n n g))"
proof (cases "n = 0")
  case True
  from assms have "length (fst (randint ops n n g)) = n" by (simp add: rng_contract_def)
  with True show ?thesis by simp
next
  case False
  with assms show ?thesis by (simp add: rng_contract_def)
qed

subsection \<open>The small generator and worked stages\<close>

lemma lcg_draws_Pair: "lcg_draws n g = (xs, g') \<Longrightarrow> length xs = n"
  by (induction n arbitrary: g xs g') (auto split: prod.splits)

lemma lcg_draws_length: "length (fst (lcg_draws n g)) = n"
  by (cases "lcg_draws n g") (simp add: lcg_draws_Pair)

lemma lcg_contract: "rng_contract lcg"
  by (auto simp: rng_contract_def lcg_def list_all_iff dest: lcg_draws_Pair split: prod.splits)

lemma example_linspace_3: "linspace 0 1 3 = [0, 1 / 2, 1]"
  by (simp add: linspace_def Let_def upt_conv_Cons numeral_eq_Suc)

lemma example_linspace_2: "linspace 0 1 2 = [0, 1]"
  by (simp add: linspace_def Let_def upt_conv_Cons numeral_eq_Suc)

lemmas stage_defs =
  np_random_seed_def check_shapes_def ndim_def reference_points_def unflat_def unflat3_def
  normalize_def distances_def manhattan_def credibility_def np_true_divide_def resolve_bins_def
  upt_conv_Cons

lemma example_bin_counts:
  "bin_counts [0, 1 / 2, 1] 2 [1, 0] = [1, 1]"
  "bin_counts [0, 1 / 2, 1] 2 [0, 0] = [2, 0]"
  "bin_counts [0, 1 / 2, 1] 2 [1, 1] = [0, 2]"
  by (simp_all add: bin_counts_def in_bin_def upt_conv_Cons)

lemma example_density:
  "density [Suc 0, Suc 0] [0, 1 / 2, 1] = [1, 1]"
  "density [2, 0] [0, 1 / 2, 1] = [2, 0]"
  "density [0, 2] [0, 1 / 2, 1] = [0, 2]"
  by (simp_all add: density_def upt_conv_Cons)

lemma example_histogram:
  "histogram [Some 1, Some 0] 2 = Inr ([1, 1], [0, 1 / 2, 1])"
  "histogram [Some 0, Some 0] 2 = Inr ([2, 0], [0, 1 / 2, 1])"
  "histogram [Some 1, Some 1] 2 = Inr ([0, 2], [0, 1 / 2, 1])"
  by (simp_all add: histogram_def List.map_filter_def Let_def example_linspace_3
      example_bin_counts example_density)

lemma example_coverage:
  "expected_coverage [Some 1, Some 0] 2 = Inr ([0, 1 / 2, 1], [0, 1 / 2, 1])"
  "expected_coverage [Some 0, Some 0] 2 = Inr ([0, 1, 1], [0, 1 / 2, 1])"
  "expected_coverage [Some 1, Some 1] 2 = Inr ([0, 0, 1], [0, 1 / 2, 1])"
  by (simp_all add: expected_coverage_def example_histogram cumsum_def)

lemma example_single_01:
  "get_tarp_coverage_single lcg (NDArray [1, 2, 1] [0, 1]) (NDArray [2, 1] [1 / 2, 1 / 2])
     (RefArr (NDArray [2, 1] [0, 0])) ''manhattan'' (Some 2) False (Some 0) (world0 g)
   = Inr (([0, 1 / 2, 1], [0, 1 / 2, 1]), world0 0)"
  by (simp add: get_tarp_coverage_single_def stage_defs example_coverage lcg_def world0_def)

lemma example_single_11:
  "get_tarp_coverage_single lcg (NDArray [1, 2, 1] [1, 1]) (NDArray [2, 1] [1 / 2, 1 / 2])
     (RefArr (NDArray [2, 1] [0, 0])) ''manhattan'' (Some 2) False (Some 0) (world0 g)
   = Inr (([0, 1, 1], [0, 1 / 2, 1]), world0 0)"
  by (simp add: get_tarp_coverage_single_def stage_defs example_coverage lcg_def world0_def)

lemma example_single_00:
  "get_tarp_coverage_single lcg (NDArray [1, 2, 1] [0, 0]) (NDArray [2, 1] [1 / 2, 1 / 2])
     (RefArr (NDArray [2, 1] [0, 0])) ''manhattan'' (Some 2) False (Some 0) (world0 g)
   = Inr (([0, 0, 1], [0, 1 / 2, 1]), world0 0)"
  by (simp add: get_tarp_coverage_single_def stage_defs example_coverage lcg_def world0_def)

lemmas resample_defs =
  resample_def take_axis1_def take_rows_def ndim_def lcg_def world0_def lcg_draws_pos lcg_next_def
  Let_def upt_conv_Cons

lemma example_resample_3:
  "resample lcg 2 (NDArray [1, 2, 1] [0, 1]) (NDArray [2, 1] [1 / 2, 1 / 2])
     (RefArr (NDArray [2, 1] [0, 0])) (world0 3)
   = Inr ([1, 1], NDArray [1, 2, 1] [1, 1], NDArray [2, 1] [1 / 2, 1 / 2],
          RefArr (NDArray [2, 1] [0, 0]), world0 13)"
  by (simp add: resample_defs)

lemma example_resample_13:
  "resample lcg 2 (NDArray [1, 2, 1] [0, 1]) (NDArray [2, 1] [1 / 2, 1 / 2])
     (RefArr (NDArray [2, 1] [0, 0])) (world0 13)
   = Inr ([0, 0], NDArray [1, 2, 1] [0, 0], NDArray [2, 1] [1 / 2, 1 / 2],
          RefArr (NDArray [2, 1] [0, 0]), world0 7)"
  by (simp add: resample_defs)

lemma example_resample_0:
  "resample lcg 2 (NDArray [1, 2, 1] [0, 1]) (NDArray [2, 1] [1 / 2, 1 / 2])
     (RefArr (NDArray [2, 1] [0, 0])) (world0 0)
   = Inr ([0, 1], NDArray [1, 2, 1] [0, 1], NDArray [2, 1] [1 / 2, 1 / 2],
          RefArr (NDArray [2, 1] [0, 0]), world0 2)"
  by (simp add: resample_defs)

subsection \<open>Shape checks and the seeded single pass\<close>

text \<open>
  A result of the single pass implies the shape contract; each violated constraint raises
  its own ValueError, in the order of the source.
\<close>

lemma length_two: "length xs = 2 \<Longrightarrow> xs = [xs ! 0, xs ! 1]"
  by (cases xs; cases "tl xs") auto

lemma single_Inr_shapes:
  assumes "get_tarp_coverage_single ops samples theta refs metric num_alpha_bins norm_on seed w = Inr x"
  shows "shape_contract samples theta refs"
proof -
  from assms obtain S N D where cs: "check_shapes samples theta = Inr (S, N, D)"
    by (auto simp: get_tarp_coverage_single_def split: sum.splits)
  from check_shapes_Inr [OF cs] have a: "ndim samples = 3" "ndim theta = 2"
    "shape theta ! 0 = shape samples ! 1" "shape theta ! 1 = shape samples ! 2"
    and N: "N = shape samples ! 1" and D: "D = shape samples ! 2" by simp_all
  from a have st: "shape theta = [shape samples ! 1, shape samples ! 2]"
    using length_two [of "shape theta"] by (simp add: ndim_def)
  from assms cs obtain y w1 where rp: "reference_points ops refs norm_on N D w1 = Inr y"
    by (auto simp: get_tarp_coverage_single_def split: sum.splits)
  have "case refs of RefStr s \<Rightarrow> s = ''random''
        | RefArr r \<Rightarrow> shape r = [shape samples ! 1, shape samples ! 2]"
  proof (cases refs)
    case (RefStr s)
    with rp show ?thesis by (simp add: reference_points_def split: if_splits)
  next
    case (RefArr r)
    with rp have "ndim r = 2" "shape r ! 0 = N" "shape r ! 1 = D"
      by (simp_all add: reference_points_def split: if_splits)
    with RefArr N D show ?thesis
      using length_two [of "shape r"] by (simp add: ndim_def)
  qed
  with a st show ?thesis by (simp add: shape_contract_def)
qed

lemma single_shape_errors:
  assumes "valid_seed seed"
  shows "ndim samples \<noteq> 3 \<Longrightarrow>
           get_tarp_coverage_single ops samples theta refs metric num_alpha_bins norm_on seed w
             = Inl (ValueError ''samples must be a 3D array'')"
    and "ndim samples = 3 \<Longrightarrow> ndim theta \<noteq> 2 \<Longrightarrow>
           get_tarp_coverage_single ops samples theta refs metric num_alpha_bins norm_on seed w
             = Inl (ValueError ''theta must be a 2D array'')"
    and "ndim samples = 3 \<Longrightarrow> ndim theta = 2 \<Longrightarrow> shape theta ! 0 \<noteq> shape samples ! 1 \<Longrightarrow>
           get_tarp_coverage_single ops samples theta refs metric num_alpha_bins norm_on seed w
             = Inl (ValueError ''theta must have the same number of rows as samples'')"
    and "ndim samples = 3 \<Longrightarrow> ndim theta = 2 \<Longrightarrow> shape theta ! 0 = shape samples ! 1 \<Longrightarrow>
         shape theta ! 1 \<noteq> shape samples ! 2 \<Longrightarrow>
           get_tarp_coverage_single ops samples theta refs metric num_alpha_bins norm_on seed w
             = Inl (ValueError ''theta must have the same number of columns as samples'')"
  using assms
  by (auto simp: get_tarp_coverage_single_def valid_seed_def np_random_seed_def check_shapes_def
      Let_def split: option.splits)

lemma single_reference_errors:
  assumes "valid_seed seed" and "shape_contract samples theta (RefStr ''random'')"
  shows "ndim r \<noteq> 2 \<Longrightarrow>
           get_tarp_coverage_single ops samples theta (RefArr r) metric num_alpha_bins norm_on seed w
             = Inl (ValueError ''references must be a 2D array'')"
    and "ndim r = 2 \<Longrightarrow> shape r ! 0 \<noteq> shape samples ! 1 \<Longrightarrow>
           get_tarp_coverage_single ops samples theta (RefArr r) metric num_alpha_bins norm_on seed w
             = Inl (ValueError ''references must have the same number of rows as samples'')"
    and "ndim r = 2 \<Longrightarrow> shape r ! 0 = shape samples ! 1 \<Longrightarrow> shape r ! 1 \<noteq> shape samples ! 2 \<Longrightarrow>
           get_tarp_coverage_single ops samples theta (RefArr r) metric num_alpha_bins norm_on seed w
             = Inl (ValueError ''references must have the same number of columns as samples'')"
  using assms
  by (auto simp: get_tarp_coverage_single_def valid_seed_def np_random_seed_def check_shapes_def
      shape_contract_def ndim_def reference_points_def Let_def split: option.splits)

text \<open>
  With a seed, the pair returned by the single pass and the state in which it leaves the
  generator do not depend on the world before the call.
\<close>

lemma reference_points_gen:
  assumes "gen w = gen v"
  shows "(reference_points ops refs norm_on N D w = Inl e \<longrightarrow>
            reference_points ops refs norm_on N D v = Inl e) \<and>
         (reference_points ops refs norm_on N D w = Inr (refs1, given, w2) \<longrightarrow>
            (\<exists>v2. reference_points ops refs norm_on N D v = Inr (refs1, given, v2) \<and> gen v2 = gen w2))"
  using assms
  by (cases refs) (auto simp: reference_points_def Let_def split: prod.splits if_splits)

lemma single_seeded:
  assumes r: "get_tarp_coverage_single ops samples theta refs metric num_alpha_bins norm_on (Some s) w
                = Inr (x, w')"
  shows "\<exists>v'. get_tarp_coverage_single ops samples theta refs metric num_alpha_bins norm_on (Some s) v
                 = Inr (x, v') \<and> gen v' = gen w'"
proof -
  from r have s: "0 \<le> s \<and> s < 2 ^ 32"
    by (auto simp: get_tarp_coverage_single_def np_random_seed_def split: if_splits)
  define w1 where "w1 = w\<lparr>gen := seed_state ops (nat s)\<rparr>"
  define v1 where "v1 = v\<lparr>gen := seed_state ops (nat s)\<rparr>"
  have g: "gen w1 = gen v1" by (simp add: w1_def v1_def)
  from s have sw: "np_random_seed ops (Some s) w = Inr w1" "np_random_seed ops (Some s) v = Inr v1"
    by (simp_all add: np_random_seed_def w1_def v1_def)
  from r sw obtain S N D where cs: "check_shapes samples theta = Inr (S, N, D)"
    by (auto simp: get_tarp_coverage_single_def split: sum.splits)
  from r sw cs obtain refs1 given w2 where rp: "reference_points ops refs norm_on N D w1 = Inr (refs1, given, w2)"
    by (auto simp: get_tarp_coverage_single_def split: sum.splits)
  from reference_points_gen [OF g, of ops refs norm_on N D] rp
  obtain v2 where rv: "reference_points ops refs norm_on N D v1 = Inr (refs1, given, v2)"
    and gv: "gen v2 = gen w2" by blast
  from r sw cs rp have w': "w' = w2"
    by (auto simp: get_tarp_coverage_single_def split: sum.splits)
  from r sw cs rp rv have "get_tarp_coverage_single ops samples theta refs metric num_alpha_bins
      norm_on (Some s) v = Inr (x, v2)"
    by (auto simp: get_tarp_coverage_single_def split: sum.splits)
  with gv w' show ?thesis by simp
qed

text \<open>
  The state in which a seeded single pass leaves the generator is the state of the seed,
  advanced by the draw of the references when they are generated; an iteration of the
  bootstrap with references given as an array therefore always ends in the state of the
  seed, and the next draw of indices starts from it.
\<close>

lemma single_seeded_state:
  assumes "get_tarp_coverage_single ops samples theta refs metric num_alpha_bins norm_on (Some s) w
             = Inr (x, w')"
  shows "gen w' = (case refs of
                     RefArr r \<Rightarrow> seed_state ops (nat s)
                   | RefStr str \<Rightarrow>
                       snd (uniform ops (1 * (shape samples ! 1) * (shape samples ! 2))
                              (seed_state ops (nat s))))"
proof -
  from assms have s: "0 \<le> s \<and> s < 2 ^ 32"
    by (auto simp: get_tarp_coverage_single_def np_random_seed_def split: if_splits)
  define w1 where "w1 = w\<lparr>gen := seed_state ops (nat s)\<rparr>"
  from s have sw: "np_random_seed ops (Some s) w = Inr w1"
    by (simp add: np_random_seed_def w1_def)
  from assms sw obtain S N D where cs: "check_shapes samples theta = Inr (S, N, D)"
    by (auto simp: get_tarp_coverage_single_def split: sum.splits)
  from check_shapes_Inr [OF cs] have N: "N = shape samples ! 1" and D: "D = shape samples ! 2"
    by simp_all
  from assms sw cs obtain refs1 given where rp: "reference_points ops refs norm_on N D w1 = Inr (refs1, given, w')"
    by (auto simp: get_tarp_coverage_single_def split: sum.splits)
  then show ?thesis
    by (cases refs)
      (auto simp: reference_points_def Let_def w1_def N D split: prod.splits if_splits)
qed

lemma boot_iteration_seeded_state:
  assumes "boot_iteration ops N samples theta (RefArr r) metric bins norm_on (Some s) w = Inr (x, w')"
  shows "gen w' = seed_state ops (nat s)"
proof -
  from assms obtain idx bs bt br w1
    where rs: "resample ops N samples theta (RefArr r) w = Inr (idx, bs, bt, br, w1)"
      and sp: "get_tarp_coverage_single ops bs bt br metric (Some bins) norm_on (Some s) w1 = Inr (x, w')"
    by (auto simp: boot_iteration_def split: sum.splits)
  from rs obtain r' where "br = RefArr r'"
    by (auto simp: resample_def split: prod.splits sum.splits)
  with single_seeded_state [OF sp] show ?thesis by simp
qed

subsection \<open>Worked bootstrap iterations\<close>

lemma example_iteration_3:
  "boot_iteration lcg 2 (NDArray [1, 2, 1] [0, 1]) (NDArray [2, 1] [1 / 2, 1 / 2])
     (RefArr (NDArray [2, 1] [0, 0])) ''manhattan'' 2 False (Some 0) (world0 3)
   = Inr (([0, 1, 1], [0, 1 / 2, 1]), world0 0)"
  by (simp only: boot_iteration_def example_resample_3 example_single_11 sum.case prod.case)

lemma example_iteration_13:
  "boot_iteration lcg 2 (NDArray [1, 2, 1] [0, 1]) (NDArray [2, 1] [1 / 2, 1 / 2])
     (RefArr (NDArray [2, 1] [0, 0])) ''manhattan'' 2 False (Some 0) (world0 13)
   = Inr (([0, 0, 1], [0, 1 / 2, 1]), world0 0)"
  by (simp only: boot_iteration_def example_resample_13 example_single_00 sum.case prod.case)

lemma example_iteration_0:
  "boot_iteration lcg 2 (NDArray [1, 2, 1] [0, 1]) (NDArray [2, 1] [1 / 2, 1 / 2])
     (RefArr (NDArray [2, 1] [0, 0])) ''manhattan'' 2 False (Some 0) (world0 0)
   = Inr (([0, 1 / 2, 1], [0, 1 / 2, 1]), world0 0)"
  by (simp only: boot_iteration_def example_resample_0 example_single_01 sum.case prod.case)

lemma example_coverage_one: "expected_coverage [Some 1] 1 = Inr ([0, 1], [0, 1])"
proof -
  have "linspace 0 1 (Suc (Suc 0)) = [0, 1]"
    using example_linspace_2 by (simp add: numeral_2_eq_2)
  moreover have "bin_counts [0, 1] (Suc 0) [1] = [Suc 0]"
    by (simp add: bin_counts_def in_bin_def upt_conv_Cons)
  moreover have "density [Suc 0] [0, 1] = [1]"
    by (simp add: density_def upt_conv_Cons)
  ultimately have "histogram [Some 1] 1 = Inr ([1], [0, 1])"
    by (simp add: histogram_def List.map_filter_def Let_def)
  then show ?thesis by (simp add: expected_coverage_def cumsum_def)
qed

lemma example_contract:
  "shape_contract (NDArray [1, 2, 1] [0, 1]) (NDArray [2, 1] [10, 20]) (RefArr (NDArray [2, 1] [11, 21]))"
  by (simp add: shape_contract_def ndim_def)

subsection \<open>The coverage curve\<close>

text \<open>
  C5. On every valid input the single pass returns, and the curve it returns has
  \<^verbatim>\<open>num_alpha_bins + 1\<close> entries (with the default \<^verbatim>\<open>num_sims // 10\<close> when no
  number of bins is given), starts with exactly 0 and never decreases.
\<close>

theorem single_ecp_invariants:
  assumes "valid_single samples theta refs metric num_alpha_bins seed"
  shows "\<exists>ecp alpha w'.
           get_tarp_coverage_single ops samples theta refs metric num_alpha_bins norm_on seed w
             = Inr ((ecp, alpha), w') \<and>
           length ecp = nat (resolve_bins num_alpha_bins (shape samples ! 1)) + 1 \<and>
           ecp ! 0 = 0 \<and> sorted ecp"
proof -
  from single_valid [OF assms, of ops norm_on w] obtain ecp alpha w'
    where r: "get_tarp_coverage_single ops samples theta refs metric num_alpha_bins norm_on seed w
                = Inr ((ecp, alpha), w')" by blast
  from single_Inr [OF r] obtain f
    where "expected_coverage f (resolve_bins num_alpha_bins (shape samples ! 1)) = Inr (ecp, alpha)"
    by blast
  from expected_coverage_Inr [OF this] r show ?thesis by simp
qed

theorem single_ecp_invariants_witness:
  "valid_single (NDArray [1, 2, 1] [0, 1]) (NDArray [2, 1] [1 / 2, 1 / 2])
     (RefArr (NDArray [2, 1] [0, 0])) ''manhattan'' (Some 2) (Some 0) \<and>
   (\<exists>ecp alpha w'.
      get_tarp_coverage_single lcg (NDArray [1, 2, 1] [0, 1]) (NDArray [2, 1] [1 / 2, 1 / 2])
        (RefArr (NDArray [2, 1] [0, 0])) ''manhattan'' (Some 2) False (Some 0) (world0 3)
        = Inr ((ecp, alpha), w') \<and>
      length ecp = 3 \<and> ecp ! 0 = 0 \<and> sorted ecp)"
  using single_ecp_invariants [OF example_valid, of lcg False "world0 3"] example_valid
  by (simp add: resolve_bins_def)

subsection \<open>The alpha grid\<close>

text \<open>
  C9. On every valid input the single pass returns, and the grid it returns is the list of
  the \<open>i / bins\<close> for \<open>i\<close> from 0 to \<open>bins\<close>: a function of the number of bins alone,
  with \<open>bins + 1\<close> entries, from 0 to 1, strictly increasing, each step \<open>1 / bins\<close>.
\<close>

theorem single_alpha_grid:
  assumes "valid_single samples theta refs metric num_alpha_bins seed"
    and "nb = nat (resolve_bins num_alpha_bins (shape samples ! 1))"
  shows "\<exists>ecp alpha w'.
           get_tarp_coverage_single ops samples theta refs metric num_alpha_bins norm_on seed w
             = Inr ((ecp, alpha), w') \<and>
           alpha = map (\<lambda>i. real i / real nb) [0..<nb + 1] \<and>
           length alpha = nb + 1 \<and> alpha ! 0 = 0 \<and> alpha ! nb = 1 \<and>
           sorted_wrt (<) alpha \<and>
           list_all (\<lambda>i. alpha ! Suc i - alpha ! i = 1 / real nb) [0..<nb]"
proof -
  from single_valid [OF assms(1), of ops norm_on w] obtain ecp alpha w'
    where r: "get_tarp_coverage_single ops samples theta refs metric num_alpha_bins norm_on seed w
                = Inr ((ecp, alpha), w')" by blast
  from single_Inr [OF r] obtain f
    where "expected_coverage f (resolve_bins num_alpha_bins (shape samples ! 1)) = Inr (ecp, alpha)"
    by blast
  from expected_coverage_Inr [OF this] assms(2)
  have nb: "0 < nb" and al: "alpha = linspace 0 1 (Suc nb)" by simp_all
  have "alpha = map (\<lambda>i. real i / real nb) [0..<nb + 1]"
    using nb by (simp add: al linspace_unit del: upt_Suc)
  moreover have "length alpha = nb + 1" by (simp add: al linspace_length)
  moreover have "alpha ! 0 = 0" "alpha ! nb = 1"
    using nb by (simp_all add: al linspace_unit_nth)
  moreover have "sorted_wrt (<) alpha"
    using nb by (simp add: al linspace_unit_strict)
  moreover have "list_all (\<lambda>i. alpha ! Suc i - alpha ! i = 1 / real nb) [0..<nb]"
    using nb by (simp add: al list_all_iff linspace_unit_nth diff_divide_distrib [symmetric] del: of_nat_Suc)
  ultimately show ?thesis using r by blast
qed

theorem single_alpha_grid_witness:
  "valid_single (NDArray [1, 2, 1] [0, 1]) (NDArray [2, 1] [1 / 2, 1 / 2])
     (RefArr (NDArray [2, 1] [0, 0])) ''manhattan'' (Some 2) (Some 0) \<and>
   (\<exists>ecp alpha w'.
      get_tarp_coverage_single lcg (NDArray [1, 2, 1] [0, 1]) (NDArray [2, 1] [1 / 2, 1 / 2])
        (RefArr (NDArray [2, 1] [0, 0])) ''manhattan'' (Some 2) False (Some 0) (world0 3)
        = Inr ((ecp, alpha), w') \<and>
      alpha = [0, 1 / 2, 1])"
  using single_alpha_grid [OF example_valid, of 2 lcg False "world0 3"] example_valid
  by (simp add: resolve_bins_def upt_conv_Cons)

subsection \<open>A bootstrap of zero iterations\<close>

text \<open>
  C10. Called with \<^verbatim>\<open>bootstrap=True\<close> and \<^verbatim>\<open>num_bootstrap=0\<close>, the entry point
  returns an ensemble with no rows and \<^verbatim>\<open>None\<close> for alpha: the loop body, the only
  place where a grid is computed, never runs. The two hypotheses are what lines 173--178
  need to pass: \<^verbatim>\<open>samples.shape[1]\<close> exists, and \<^verbatim>\<open>np.empty\<close> gets no negative
  dimension. Nothing is asked of theta, the references, the metric or the seed, and the
  world is left as it was.
\<close>

theorem bootstrap_zero_iterations:
  assumes "2 \<le> ndim samples"
    and "- 1 \<le> resolve_bins num_alpha_bins (shape samples ! 1)"
  shows "get_tarp_coverage ops samples theta refs metric num_alpha_bins 0 norm_on True seed w
           = Inr (Ensemble [] None, w)"
  using assms by (simp add: get_tarp_coverage_def get_tarp_coverage_bootstrap_def Let_def)

theorem bootstrap_zero_iterations_witness:
  "get_tarp_coverage lcg (NDArray [1, 20, 1] (replicate 20 0)) (NDArray [20, 1] (replicate 20 0))
      (RefStr ''random'') ''euclidean'' None 0 False True (Some 0) (world0 3)
     = Inr (Ensemble [] None, world0 3)"
  using bootstrap_zero_iterations [of "NDArray [1, 20, 1] (replicate 20 0)" None lcg
      "NDArray [20, 1] (replicate 20 0)" "RefStr ''random''" "''euclidean''" False "Some 0" "world0 3"]
  by (simp add: ndim_def resolve_bins_def)

subsection \<open>The credibility values\<close>

text \<open>
  C4. With the references, samples and theta as the single pass holds them when it reaches
  line 133 (generated or validated, then normalised or not), the credibility value of
  dataset \<open>n\<close> is the number of samples \<open>s\<close> whose distance to the reference of \<open>n\<close>
  is strictly less than the distance of the truth to that reference, divided by the
  number \<open>S\<close> of samples; it lies between 0 and 1. \<open>S\<close> is positive: with no sample
  numpy divides zero by zero.
\<close>

theorem single_credibility:
  assumes rp: "reference_points ops refs norm_on N D w1 = Inr (refs1, given, w2)"
    and nz: "normalize norm_on given D (unflat3 S N D (data samples)) (unflat N D (data theta)) refs1
               = Inr (samples', theta', refs')"
    and d: "distances metric refs' samples' theta' = Inr (sd, td)"
    and S: "0 < S" and n: "n < N"
  shows "\<exists>f. credibility sd td S N ! n = Some f \<and>
           f = real (card {s. s < S \<and>
                     metric_distance metric (refs' ! n) (samples' ! s ! n)
                       < metric_distance metric (refs' ! n) (theta' ! n)})
               / real S \<and>
           0 \<le> f \<and> f \<le> 1"
proof -
  from normalize_Inr [OF nz] reference_points_Inr [OF rp]
  have ls: "length samples' = S" and lt: "length theta' = N" and lr: "length refs' = N"
    by (simp_all add: unflat3_length unflat_length)
  have "list_all (\<lambda>sm. length sm = N) samples'"
  proof -
    have "list_all (\<lambda>l. l = N) (map length (unflat3 S N D (data samples)))"
      using unflat3_rows [of N S D "data samples"] by (simp add: list_all_iff)
    with normalize_rows [OF nz] have "list_all (\<lambda>l. l = N) (map length samples')" by simp
    then show ?thesis by (simp add: list_all_iff)
  qed
  from credibility_fraction [OF d _ n lr lt this] S ls show ?thesis by simp
qed

theorem single_credibility_witness:
  "\<exists>f. credibility [[0, 1]] [1 / 2, 1 / 2] 1 2 ! 0 = Some f \<and>
       f = real (card {s. s < 1 \<and>
                 metric_distance ''manhattan'' ([[0], [0]] ! 0) ([[[0], [1]]] ! s ! 0)
                   < metric_distance ''manhattan'' ([[0], [0]] ! 0) ([[1 / 2], [1 / 2]] ! 0)})
           / real 1 \<and>
       0 \<le> f \<and> f \<le> 1"
  using single_credibility [OF example_reference_points example_normalize example_distances, of 0]
  by simp

subsection \<open>The metric\<close>

text \<open>
  C8. With a metric other than \<^verbatim>\<open>"euclidean"\<close> and \<^verbatim>\<open>"manhattan"\<close> the single pass
  never returns a result, whatever the other arguments (nor does the entry point without
  the bootstrap, or with a bootstrap of at least one iteration); when the shapes and the
  seed are accepted (and, with the normalisation, there is a simulation to take the
  extremes of) the error is the ValueError of line 130. For the two metrics the distances
  are computed and are, for rows of equal length, the square root of the sum over the
  dimensions of the squared differences, and the sum over the dimensions of the absolute
  differences.
\<close>

theorem metric_contract:
  "(metric \<noteq> ''euclidean'' \<and> metric \<noteq> ''manhattan'' \<longrightarrow>
      isl (get_tarp_coverage_single ops samples theta refs metric num_alpha_bins norm_on seed w) \<and>
      isl (get_tarp_coverage ops samples theta refs metric num_alpha_bins num_bootstrap norm_on False seed w) \<and>
      (0 < num_bootstrap \<longrightarrow>
         isl (get_tarp_coverage ops samples theta refs metric num_alpha_bins num_bootstrap norm_on True seed w)) \<and>
      (shape_contract samples theta refs \<and> valid_seed seed \<and> (norm_on \<longrightarrow> 0 < shape samples ! 1) \<longrightarrow>
         get_tarp_coverage_single ops samples theta refs metric num_alpha_bins norm_on seed w
           = Inl (ValueError ''metric must be either euclidean or manhattan''))) \<and>
   (mt = ''euclidean'' \<or> mt = ''manhattan'' \<longrightarrow>
      distances mt rs ss ts
        = Inr (map (\<lambda>sm. map (\<lambda>(r, x). metric_distance mt r x) (zip rs sm)) ss,
               map (\<lambda>(r, t). metric_distance mt r t) (zip rs ts))) \<and>
   (length r = length x \<longrightarrow>
      metric_distance ''euclidean'' r x = sqrt (\<Sum>d<length r. (r ! d - x ! d) ^ 2) \<and>
      metric_distance ''manhattan'' r x = (\<Sum>d<length r. \<bar>r ! d - x ! d\<bar>))"
proof -
  have a: "isl (get_tarp_coverage_single ops samples theta refs metric num_alpha_bins norm_on seed w)"
    if "metric \<noteq> ''euclidean''" "metric \<noteq> ''manhattan''"
    using that single_Inr_metric [of ops samples theta refs metric num_alpha_bins norm_on seed w]
    by (cases "get_tarp_coverage_single ops samples theta refs metric num_alpha_bins norm_on seed w") auto
  have b: "isl (get_tarp_coverage ops samples theta refs metric num_alpha_bins num_bootstrap norm_on False seed w)"
    if "metric \<noteq> ''euclidean''" "metric \<noteq> ''manhattan''"
    using a [OF that] by (auto simp: get_tarp_coverage_def split: sum.splits)
  have c: "isl (get_tarp_coverage ops samples theta refs metric num_alpha_bins num_bootstrap norm_on True seed w)"
    if m: "metric \<noteq> ''euclidean''" "metric \<noteq> ''manhattan''" and k: "0 < num_bootstrap"
  proof -
    from k obtain k' where k': "nat num_bootstrap = Suc k'"
      by (metis Suc_pred' zero_less_nat_eq)
    have "isl (get_tarp_coverage_bootstrap ops samples theta refs metric num_alpha_bins num_bootstrap
                 norm_on seed w)"
    proof (cases "get_tarp_coverage_bootstrap ops samples theta refs metric num_alpha_bins num_bootstrap
                 norm_on seed w")
      case (Inl e)
      then show ?thesis by simp
    next
      case (Inr r)
      then have "boot_loop ops (shape samples ! 1) samples theta refs metric
                   (resolve_bins num_alpha_bins (shape samples ! 1)) norm_on seed (Suc k') [] None w = Inr r"
        by (simp add: get_tarp_coverage_bootstrap_def Let_def k' split: if_splits)
      from boot_loop_Inr_single [OF this] m show ?thesis by simp
    qed
    then show ?thesis by (auto simp: get_tarp_coverage_def split: sum.splits)
  qed
  have d: "distances mt rs ss ts
        = Inr (map (\<lambda>sm. map (\<lambda>(r, x). metric_distance mt r x) (zip rs sm)) ss,
               map (\<lambda>(r, t). metric_distance mt r t) (zip rs ts))"
    if "mt = ''euclidean'' \<or> mt = ''manhattan''"
    using that by (auto simp: distances_def metric_distance_def)
  have e: "metric_distance ''euclidean'' r x = sqrt (\<Sum>d<length r. (r ! d - x ! d) ^ 2)"
    "metric_distance ''manhattan'' r x = (\<Sum>d<length r. \<bar>r ! d - x ! d\<bar>)"
    if "length r = length x"
    using that by (simp_all add: metric_distance_def euclidean_sum manhattan_sum)
  from a b c d e single_metric_error [of metric samples theta refs seed norm_on ops num_alpha_bins w]
  show ?thesis by blast
qed

theorem metric_contract_witness:
  "isl (get_tarp_coverage_single lcg (NDArray [1, 2, 1] [0, 1]) (NDArray [2, 1] [1 / 2, 1 / 2])
          (RefArr (NDArray [2, 1] [0, 0])) ''cosine'' (Some 2) False (Some 0) (world0 3)) \<and>
   get_tarp_coverage_single lcg (NDArray [1, 2, 1] [0, 1]) (NDArray [2, 1] [1 / 2, 1 / 2])
          (RefArr (NDArray [2, 1] [0, 0])) ''cosine'' (Some 2) False (Some 0) (world0 3)
     = Inl (ValueError ''metric must be either euclidean or manhattan'') \<and>
   metric_distance ''euclidean'' [0, 3] [4, 0] = 5 \<and>
   metric_distance ''manhattan'' [0, 3] [4, 0] = 7"
proof -
  have sq: "sqrt 25 = 5" using real_sqrt_abs [of 5] by simp
  have s: "(\<Sum>d<2. ([0, 3] ! d - [4, 0::real] ! d)\<^sup>2) = 25"
    "(\<Sum>d<2. \<bar>[0, 3] ! d - [4, 0::real] ! d\<bar>) = 7"
    by (simp_all add: lessThan_Suc numeral_2_eq_2)
  from metric_contract [of "''cosine''" lcg "NDArray [1, 2, 1] [0, 1]" "NDArray [2, 1] [1 / 2, 1 / 2]"
      "RefArr (NDArray [2, 1] [0, 0])" "Some 2" False "Some 0" "world0 3" 1 "''euclidean''" "[]" "[]" "[]"
      "[0, 3]" "[4, 0]"]
  show ?thesis
    by (simp add: shape_contract_def valid_seed_def ndim_def s sq)
qed

subsection \<open>The normalisation\<close>

text \<open>
  C2, as the claim states it, fails. The claim takes the extremes of theta over the
  dimensions, one pair for each dataset. The source takes them over
  \<^verbatim>\<open>axis=1\<close> of theta reshaped to \<^verbatim>\<open>(1, num_sims, num_dims)\<close>, which is the axis of
  the datasets: one pair for each dimension. On theta \<open>[[0, 10], [1, 20]]\<close> the source
  rescales the first row to \<open>[0, 0]\<close>, the claim to \<open>[0, 10 / (10 + eps)]\<close>.
\<close>

theorem normalize_per_dataset_counterexample:
  "normalize True False 2 [[[5, 15], [5, 15]]] [[0, 10], [1, 20]] [[0, 0], [0, 0]]
     = Inr ([[[5 / (1 + eps), 5 / (10 + eps)], [5 / (1 + eps), 5 / (10 + eps)]]],
            [[0, 0], [1 / (1 + eps), 10 / (10 + eps)]],
            [[0, 0], [0, 0]]) \<and>
   spec_normalize_theta [[0, 10], [1, 20]] = [[0, 10 / (10 + eps)], [0, 19 / (19 + eps)]] \<and>
   [[0, 0], [1 / (1 + eps), 10 / (10 + eps)]] \<noteq> [[0, 10 / (10 + eps)], [0, 19 / (19 + eps)]]"
proof -
  have a: "normalize True False 2 [[[5, 15], [5, 15]]] [[0, 10], [1, 20]] [[0, 0], [0, 0]]
     = Inr ([[[5 / (1 + eps), 5 / (10 + eps)], [5 / (1 + eps), 5 / (10 + eps)]]],
            [[0, 0], [1 / (1 + eps), 10 / (10 + eps)]],
            [[0, 0], [0, 0]])"
    by (simp add: normalize_def Let_def amin_axis1_def amax_axis1_def rescale_def upt_conv_Cons)
  have b: "spec_normalize_theta [[0, 10], [1, 20]] = [[0, 10 / (10 + eps)], [0, 19 / (19 + eps)]]"
    by (simp add: spec_normalize_theta_def rescale_per_dataset_def)
  have c: "10 / (10 + eps) \<noteq> 0" using eps_pos by simp
  from a b c show ?thesis by simp
qed

text \<open>
  C2, amended. With the normalisation enabled, the minimum \<open>lo\<close> and the maximum \<open>hi\<close>
  of theta are taken for each dimension \<open>d\<close> over the datasets, and every entry \<open>x\<close> in
  dimension \<open>d\<close> of theta, of the samples and, when the references are an array of the
  caller, of the references is rescaled to \<open>(x - lo) / (hi - lo + eps)\<close>, with
  \<open>eps = 1e-10\<close>; references generated for \<^verbatim>\<open>"random"\<close> are left as they are.
\<close>

theorem normalize_per_dimension:
  assumes rp: "reference_points ops refs norm_on N D w = Inr (refs1, given, w2)"
    and nz: "normalize True given D samples theta refs1 = Inr (samples', theta', refs')"
    and d: "d < D"
    and lo: "lo = Min ((\<lambda>t. t ! d) ` set theta)" and hi: "hi = Max ((\<lambda>t. t ! d) ` set theta)"
  shows "(\<forall>n<length theta. d < length (theta ! n) \<longrightarrow>
            theta' ! n ! d = (theta ! n ! d - lo) / (hi - lo + eps)) \<and>
         (\<forall>s<length samples. \<forall>n<length (samples ! s). d < length (samples ! s ! n) \<longrightarrow>
            samples' ! s ! n ! d = (samples ! s ! n ! d - lo) / (hi - lo + eps)) \<and>
         ((\<exists>r. refs = RefArr r) \<longrightarrow>
            (\<forall>n<length refs1. d < length (refs1 ! n) \<longrightarrow>
               refs' ! n ! d = (refs1 ! n ! d - lo) / (hi - lo + eps))) \<and>
         (refs = RefStr ''random'' \<longrightarrow> refs' = refs1)"
proof -
  define low where "low = amin_axis1 D theta"
  define high where "high = amax_axis1 D theta"
  have ll: "length low = D" "length high = D"
    by (simp_all add: low_def high_def amin_axis1_def amax_axis1_def)
  have lod: "low ! d = lo" "high ! d = hi"
    using d by (simp_all add: low_def high_def amin_axis1_nth amax_axis1_nth lo hi)
  from nz have s': "samples' = map (map (rescale low high)) samples"
    and t': "theta' = map (rescale low high) theta"
    and r': "refs' = (if given then map (rescale low high) refs1 else refs1)"
    by (auto simp: normalize_def Let_def low_def high_def split: if_splits)
  from reference_points_Inr [OF rp] have g: "given = (refs \<noteq> RefStr ''random'')" by simp
  have resc: "rescale low high row ! d = (row ! d - lo) / (hi - lo + eps)" if "d < length row" for row
    using rescale_nth [OF that, of low high] d ll lod by simp
  show ?thesis
    using g by (auto simp: s' t' r' resc)
qed

theorem normalize_per_dimension_witness:
  "normalize True True 2 [[[5, 15], [5, 15]]] [[0, 10], [1, 20]] [[0, 0], [0, 0]]
     = Inr ([[[5 / (1 + eps), 5 / (10 + eps)], [5 / (1 + eps), 5 / (10 + eps)]]],
            [[0, 0], [1 / (1 + eps), 10 / (10 + eps)]],
            [[0, - (10 / (10 + eps))], [0, - (10 / (10 + eps))]]) \<and>
   [[0, 0], [1 / (1 + eps), 10 / (10 + eps)]] ! 1 ! 1 = (20 - 10) / (20 - 10 + eps) \<and>
   [[[5 / (1 + eps), 5 / (10 + eps)], [5 / (1 + eps), 5 / (10 + eps)]]] ! 0 ! 0 ! 1
     = (15 - 10) / (20 - 10 + eps) \<and>
   [[0, - (10 / (10 + eps))], [0, - (10 / (10 + eps))]] ! 0 ! 1 = (0 - 10) / (20 - 10 + eps)"
  using normalize_per_dimension [OF example_reference_points_given example_normalize_given, of 1 10 20]
    example_normalize_given
  by simp

subsection \<open>The draw of a bootstrap iteration\<close>

text \<open>
  C6. On inputs that keep the shape contract, with a generator that keeps numpy's
  contract, the resampling of an iteration (lines 181--189) succeeds: it makes one draw
  \<open>idx\<close> of \<open>N\<close> indices below \<open>N\<close> from the current state of the generator; row
  \<open>j\<close> of the resampled samples (for each sample \<open>s\<close>), of the resampled theta and,
  when the references are an array, of the resampled references is row \<open>idx ! j\<close> of the
  original, so the reference and the truth of every resampled dataset still belong
  together; references given as a string are passed on unchanged.
\<close>

theorem resample_shared_indices:
  assumes c: "rng_contract ops"
    and sc: "shape_contract samples theta refs"
    and sh: "shape samples = [S, N, D]"
    and wfs: "wf_ndarray samples" and wft: "wf_ndarray theta"
    and wfr: "case refs of RefStr s \<Rightarrow> True | RefArr r \<Rightarrow> wf_ndarray r"
  shows "\<exists>idx boot_samples boot_theta boot_references w'.
           resample ops N samples theta refs w
             = Inr (idx, boot_samples, boot_theta, boot_references, w') \<and>
           idx = fst (randint ops N N (gen w)) \<and>
           length idx = N \<and> list_all (\<lambda>i. i < N) idx \<and>
           shape boot_samples = [S, N, D] \<and> shape boot_theta = [N, D] \<and>
           (\<forall>s<S. \<forall>j<N. unflat3 S N D (data boot_samples) ! s ! j
                          = unflat3 S N D (data samples) ! s ! (idx ! j)) \<and>
           (\<forall>j<N. unflat N D (data boot_theta) ! j = unflat N D (data theta) ! (idx ! j)) \<and>
           (case refs of
              RefStr s \<Rightarrow> boot_references = RefStr s
            | RefArr r \<Rightarrow>
                (\<exists>r'. boot_references = RefArr r' \<and> shape r' = [N, D] \<and>
                   (\<forall>j<N. unflat N D (data r') ! j = unflat N D (data r) ! (idx ! j))))"
proof -
  obtain idx g' where rd: "randint ops N N (gen w) = (idx, g')" by (cases "randint ops N N (gen w)")
  from rng_contract_randint [OF c, of N "gen w"] rd
  have li: "length idx = N" and ai: "list_all (\<lambda>i. i < N) idx" by simp_all
  from sc sh have st: "shape theta = [N, D]" by (simp add: shape_contract_def)
  from take_axis1_Inr [OF sh wfs ai] li obtain bs
    where bs: "take_axis1 idx samples = Inr bs" "shape bs = [S, N, D]"
      "\<forall>s<S. \<forall>j<N. unflat3 S N D (data bs) ! s ! j = unflat3 S N D (data samples) ! s ! (idx ! j)"
    by auto
  from take_rows_Inr [OF st wft ai] li obtain bt
    where bt: "take_rows idx theta = Inr bt" "shape bt = [N, D]"
      "\<forall>j<N. unflat N D (data bt) ! j = unflat N D (data theta) ! (idx ! j)"
    by auto
  show ?thesis
  proof (cases refs)
    case (RefStr s)
    with rd bs bt li ai show ?thesis by (simp add: resample_def)
  next
    case (RefArr r)
    with sc sh wfr have "shape r = [N, D]" "wf_ndarray r" by (simp_all add: shape_contract_def)
    from take_rows_Inr [OF this ai] li obtain br
      where br: "take_rows idx r = Inr br" "shape br = [N, D]"
        "\<forall>j<N. unflat N D (data br) ! j = unflat N D (data r) ! (idx ! j)"
      by auto
    with RefArr rd bs bt li ai show ?thesis by (simp add: resample_def)
  qed
qed

theorem resample_shared_indices_witness:
  "rng_contract lcg \<and>
   shape_contract (NDArray [1, 2, 1] [0, 1]) (NDArray [2, 1] [10, 20]) (RefArr (NDArray [2, 1] [11, 21])) \<and>
   resample lcg 2 (NDArray [1, 2, 1] [0, 1]) (NDArray [2, 1] [10, 20])
       (RefArr (NDArray [2, 1] [11, 21])) (world0 3)
     = Inr ([1, 1], NDArray [1, 2, 1] [1, 1], NDArray [2, 1] [20, 20],
            RefArr (NDArray [2, 1] [21, 21]), world0 13) \<and>
   (\<exists>idx boot_samples boot_theta boot_references w'.
      resample lcg 2 (NDArray [1, 2, 1] [0, 1]) (NDArray [2, 1] [10, 20])
          (RefArr (NDArray [2, 1] [11, 21])) (world0 3)
        = Inr (idx, boot_samples, boot_theta, boot_references, w') \<and>
      length idx = 2 \<and> list_all (\<lambda>i. i < 2) idx \<and>
      (\<forall>j<2. unflat 2 1 (data boot_theta) ! j = unflat 2 1 [10, 20] ! (idx ! j)) \<and>
      (\<exists>r'. boot_references = RefArr r' \<and>
         (\<forall>j<2. unflat 2 1 (data r') ! j = unflat 2 1 [11, 21] ! (idx ! j))))"
proof -
  have e: "resample lcg 2 (NDArray [1, 2, 1] [0, 1]) (NDArray [2, 1] [10, 20])
       (RefArr (NDArray [2, 1] [11, 21])) (world0 3)
     = Inr ([1, 1], NDArray [1, 2, 1] [1, 1], NDArray [2, 1] [20, 20],
            RefArr (NDArray [2, 1] [21, 21]), world0 13)"
    by (simp add: resample_defs)
  have sh: "shape (NDArray [1, 2, 1] [0, 1]) = [1, 2, 1]" by simp
  have wf: "wf_ndarray (NDArray [1, 2, 1] [0, 1])" "wf_ndarray (NDArray [2, 1] [10, 20])"
    "case RefArr (NDArray [2, 1] [11, 21]) of RefStr s \<Rightarrow> True | RefArr r \<Rightarrow> wf_ndarray r"
    by (simp_all add: wf_ndarray_def)
  from resample_shared_indices [OF lcg_contract example_contract sh wf, of "world0 3"]
  have "\<exists>idx boot_samples boot_theta boot_references w'.
      resample lcg 2 (NDArray [1, 2, 1] [0, 1]) (NDArray [2, 1] [10, 20])
          (RefArr (NDArray [2, 1] [11, 21])) (world0 3)
        = Inr (idx, boot_samples, boot_theta, boot_references, w') \<and>
      length idx = 2 \<and> list_all (\<lambda>i. i < 2) idx \<and>
      (\<forall>j<2. unflat 2 1 (data boot_theta) ! j = unflat 2 1 [10, 20] ! (idx ! j)) \<and>
      (\<exists>r'. boot_references = RefArr r' \<and>
         (\<forall>j<2. unflat 2 1 (data r') ! j = unflat 2 1 [11, 21] ! (idx ! j)))"
    apply (elim exE conjE)
    apply (simp only: references.case ndarray.sel)
    apply (elim exE conjE)
    apply (intro exI conjI)
         apply (rule refl)
        apply assumption+
    done
  with e lcg_contract example_contract show ?thesis by (intro conjI)
qed

subsection \<open>The seed in the bootstrap\<close>

text \<open>
  C1 fails on the code. The seed is never applied at the top of the loop: it is handed to
  every call of the single pass (line 198), which applies it (line 63) after the draw of
  the iteration (line 181). With the references \<open>[[0], [0]]\<close>, seed 0 and three
  iterations started in state 3 of the small generator: every iteration ends in the state
  of the seed (\<open>world0 0\<close>), so the second and the third iteration both draw from the
  freshly seeded state, get the same indices \<open>[0, 1]\<close> and leave the same row; the
  state \<open>world0 2\<close> reached by the draw is thrown away. Lemma
  \<open>boot_iteration_seeded_state\<close> is the general fact, for every generator: a seeded
  iteration ends in the state of the seed.
\<close>

theorem bootstrap_reseeds_in_every_iteration:
  "boot_iteration lcg 2 (NDArray [1, 2, 1] [0, 1]) (NDArray [2, 1] [1 / 2, 1 / 2])
     (RefArr (NDArray [2, 1] [0, 0])) ''manhattan'' 2 False (Some 0) (world0 3)
     = Inr (([0, 1, 1], [0, 1 / 2, 1]), world0 0) \<and>
   resample lcg 2 (NDArray [1, 2, 1] [0, 1]) (NDArray [2, 1] [1 / 2, 1 / 2])
     (RefArr (NDArray [2, 1] [0, 0])) (world0 0)
     = Inr ([0, 1], NDArray [1, 2, 1] [0, 1], NDArray [2, 1] [1 / 2, 1 / 2],
            RefArr (NDArray [2, 1] [0, 0]), world0 2) \<and>
   boot_iteration lcg 2 (NDArray [1, 2, 1] [0, 1]) (NDArray [2, 1] [1 / 2, 1 / 2])
     (RefArr (NDArray [2, 1] [0, 0])) ''manhattan'' 2 False (Some 0) (world0 0)
     = Inr (([0, 1 / 2, 1], [0, 1 / 2, 1]), world0 0) \<and>
   get_tarp_coverage_bootstrap lcg (NDArray [1, 2, 1] [0, 1]) (NDArray [2, 1] [1 / 2, 1 / 2])
     (RefArr (NDArray [2, 1] [0, 0])) ''manhattan'' (Some 2) 3 False (Some 0) (world0 3)
     = Inr (([[0, 1, 1], [0, 1 / 2, 1], [0, 1 / 2, 1]], Some [0, 1 / 2, 1]), world0 0)"
proof -
  have n: "nat 3 = Suc (Suc (Suc 0))" by simp
  have g: "\<not> ndim (NDArray [1, 2, 1] [0, 1]) < 2" "\<not> ((3::int) < 0 \<or> resolve_bins (Some 2) 2 + 1 < 0)"
    "shape (NDArray [1, 2, 1] [0, 1]) ! 1 = 2" "resolve_bins (Some 2) 2 = 2"
    by (simp_all add: ndim_def resolve_bins_def)
  have "get_tarp_coverage_bootstrap lcg (NDArray [1, 2, 1] [0, 1]) (NDArray [2, 1] [1 / 2, 1 / 2])
     (RefArr (NDArray [2, 1] [0, 0])) ''manhattan'' (Some 2) 3 False (Some 0) (world0 3)
     = Inr (([[0, 1, 1], [0, 1 / 2, 1], [0, 1 / 2, 1]], Some [0, 1 / 2, 1]), world0 0)"
    by (simp only: get_tarp_coverage_bootstrap_def Let_def g if_False n boot_loop.simps
        example_iteration_3 example_iteration_0 sum.case prod.case append.simps) simp
  with example_iteration_3 example_iteration_0 example_resample_0 show ?thesis
    by (simp only: simp_thms)
qed

text \<open>
  C3 fails on the code in the bootstrap. The first draw of indices (line 181) comes before
  the first \<^verbatim>\<open>np.random.seed\<close> (line 63, inside the single pass), so it reads the
  state the generator had before the call. The same inputs and the same seed 0, with one
  iteration, give the curve \<open>[0, 1, 1]\<close> from state 3 and \<open>[0, 0, 1]\<close> from state 13.
  For the single pass the claim holds: lemma \<open>single_seeded\<close>.
\<close>

theorem bootstrap_depends_on_prior_state:
  "get_tarp_coverage lcg (NDArray [1, 2, 1] [0, 1]) (NDArray [2, 1] [1 / 2, 1 / 2])
     (RefArr (NDArray [2, 1] [0, 0])) ''manhattan'' (Some 2) 1 False True (Some 0) (world0 3)
     = Inr (Ensemble [[0, 1, 1]] (Some [0, 1 / 2, 1]), world0 0) \<and>
   get_tarp_coverage lcg (NDArray [1, 2, 1] [0, 1]) (NDArray [2, 1] [1 / 2, 1 / 2])
     (RefArr (NDArray [2, 1] [0, 0])) ''manhattan'' (Some 2) 1 False True (Some 0) (world0 13)
     = Inr (Ensemble [[0, 0, 1]] (Some [0, 1 / 2, 1]), world0 0)"
proof -
  have n: "nat 1 = Suc 0" by simp
  have g: "\<not> ndim (NDArray [1, 2, 1] [0, 1]) < 2" "\<not> ((1::int) < 0 \<or> resolve_bins (Some 2) 2 + 1 < 0)"
    "shape (NDArray [1, 2, 1] [0, 1]) ! 1 = 2" "resolve_bins (Some 2) 2 = 2"
    by (simp_all add: ndim_def resolve_bins_def)
  show ?thesis
    by (simp only: get_tarp_coverage_def get_tarp_coverage_bootstrap_def Let_def g if_False if_True
        n boot_loop.simps example_iteration_3 example_iteration_13 sum.case prod.case append.simps
        simp_thms) simp
qed

subsection \<open>Shapes in the bootstrap\<close>

text \<open>
  C7 fails on the code in the bootstrap. The single pass rejects every violation of the
  shape contract (lemmas \<open>single_shape_errors\<close>, \<open>single_reference_errors\<close> and
  \<open>single_Inr_shapes\<close>). The bootstrap validates nothing itself: the single pass sees
  the arrays after the resampling, which always takes \<^verbatim>\<open>num_sims\<close> rows. With samples
  of shape \<open>(1, 1, 1)\<close> and a theta of two rows, the single pass raises the ValueError
  for the rows of theta, and the bootstrap of one iteration returns a curve; with no
  iteration the bootstrap returns for samples of two axes.
\<close>

theorem bootstrap_accepts_mismatched_theta:
  "get_tarp_coverage lcg (NDArray [1, 1, 1] [0]) (NDArray [2, 1] [1 / 2, 5])
     (RefArr (NDArray [1, 1] [0])) ''manhattan'' (Some 1) 1 False False (Some 0) (world0 0)
     = Inl (ValueError ''theta must have the same number of rows as samples'') \<and>
   get_tarp_coverage lcg (NDArray [1, 1, 1] [0]) (NDArray [2, 1] [1 / 2, 5])
     (RefArr (NDArray [1, 1] [0])) ''manhattan'' (Some 1) 1 False True (Some 0) (world0 0)
     = Inr (Ensemble [[0, 1]] (Some [0, 1]), world0 0) \<and>
   get_tarp_coverage lcg (NDArray [2, 1] [0, 1]) (NDArray [2, 1] [1 / 2, 5])
     (RefArr (NDArray [1, 1] [0])) ''manhattan'' (Some 1) 0 False True (Some 0) (world0 0)
     = Inr (Ensemble [] None, world0 0)"
proof -
  have a: "get_tarp_coverage_single lcg (NDArray [1, 1, 1] [0]) (NDArray [2, 1] [1 / 2, 5])
      (RefArr (NDArray [1, 1] [0])) ''manhattan'' (Some 1) False (Some 0) (world0 0)
      = Inl (ValueError ''theta must have the same number of rows as samples'')"
    by (simp add: get_tarp_coverage_single_def stage_defs world0_def)
  have b: "resample lcg 1 (NDArray [1, 1, 1] [0]) (NDArray [2, 1] [1 / 2, 5])
      (RefArr (NDArray [1, 1] [0])) (world0 0)
      = Inr ([0], NDArray [1, 1, 1] [0], NDArray [1, 1] [1 / 2], RefArr (NDArray [1, 1] [0]), world0 3)"
    by (simp add: resample_defs)
  have c: "get_tarp_coverage_single lcg (NDArray [1, 1, 1] [0]) (NDArray [1, 1] [1 / 2])
      (RefArr (NDArray [1, 1] [0])) ''manhattan'' (Some 1) False (Some 0) (world0 3)
      = Inr (([0, 1], [0, 1]), world0 0)"
    by (simp add: get_tarp_coverage_single_def stage_defs example_coverage_one lcg_def world0_def)
  have n: "nat 1 = Suc 0" "nat 0 = 0" by simp_all
  have g: "\<not> ndim (NDArray [1, 1, 1] [0]) < 2" "\<not> ndim (NDArray [2, 1] [0, 1]) < 2"
    "\<not> ((1::int) < 0 \<or> resolve_bins (Some 1) 1 + 1 < 0)"
    "\<not> ((0::int) < 0 \<or> resolve_bins (Some 1) 1 + 1 < 0)"
    "shape (NDArray [1, 1, 1] [0]) ! 1 = 1" "shape (NDArray [2, 1] [0, 1]) ! 1 = 1"
    "resolve_bins (Some 1) 1 = 1"
    by (simp_all add: ndim_def resolve_bins_def)
  show ?thesis
    by (simp only: get_tarp_coverage_def get_tarp_coverage_bootstrap_def boot_iteration_def
        Let_def g if_False if_True n boot_loop.simps a b c sum.case prod.case append.simps simp_thms)
      simp
qed

end
